theory Spec2Isabelle
  imports Complex_Main
begin

section \<open>Camera geometry of kiui/cam.py\<close>

text \<open>
  The module computes with numpy floating-point arrays. The embedding takes the numbers
  as real numbers in exact arithmetic: rounding, the float32 storage type of the arrays,
  and the infinities and NaN that numpy produces outside the domain of an operation are
  not represented. Arrays of fixed shape are tuples: a 3-vector is a triple, a matrix is
  the tuple of its rows. Exceptions of the Python level are values of \<open>py_error\<close>.
  The last part of the definitions embeds the operations a second time, over numpy values
  with infinities and NaN and with scalars that are Python numbers or numpy scalars, to
  settle which operations raise.
\<close>

type_synonym vec3 = "real \<times> real \<times> real"
type_synonym vec4 = "real \<times> real \<times> real \<times> real"
type_synonym mat3 = "vec3 \<times> vec3 \<times> vec3"
type_synonym mat4 = "vec4 \<times> vec4 \<times> vec4 \<times> vec4"

datatype py_error = ZeroDivisionError | LinAlgError | OverflowError | ValueError

subsection \<open>numpy operations on small arrays\<close>

definition deg2rad :: "real \<Rightarrow> real" where
  "deg2rad x = x * (pi / 180)"

definition rad2deg :: "real \<Rightarrow> real" where
  "rad2deg x = x * (180 / pi)"

fun add3 :: "vec3 \<Rightarrow> vec3 \<Rightarrow> vec3" where
  "add3 (a1, a2, a3) (b1, b2, b3) = (a1 + b1, a2 + b2, a3 + b3)"

fun sub3 :: "vec3 \<Rightarrow> vec3 \<Rightarrow> vec3" where
  "sub3 (a1, a2, a3) (b1, b2, b3) = (a1 - b1, a2 - b2, a3 - b3)"

fun scale3 :: "real \<Rightarrow> vec3 \<Rightarrow> vec3" where
  "scale3 k (a1, a2, a3) = (k * a1, k * a2, k * a3)"

fun dot3 :: "vec3 \<Rightarrow> vec3 \<Rightarrow> real" where
  "dot3 (a1, a2, a3) (b1, b2, b3) = a1 * b1 + a2 * b2 + a3 * b3"

fun cross :: "vec3 \<Rightarrow> vec3 \<Rightarrow> vec3" where
  "cross (a1, a2, a3) (b1, b2, b3) =
     (a2 * b3 - a3 * b2, a3 * b1 - a1 * b3, a1 * b2 - a2 * b1)"

text \<open>\<open>np.linalg.norm\<close> of a 3-vector.\<close>

definition norm3 :: "vec3 \<Rightarrow> real" where
  "norm3 v = sqrt (dot3 v v)"

text \<open>
  \<open>np.arctan2 y x\<close>: the angle of the point \<open>(x, y)\<close> in \<open>(-pi, pi]\<close>, by quadrant.
\<close>

definition arctan2 :: "real \<Rightarrow> real \<Rightarrow> real" where
  "arctan2 y x =
     (if 0 < x then arctan (y / x)
      else if x < 0 \<and> 0 \<le> y then arctan (y / x) + pi
      else if x < 0 \<and> y < 0 then arctan (y / x) - pi
      else if 0 < y then pi / 2
      else if y < 0 then - (pi / 2)
      else 0)"

definition zeros3 :: vec3 where
  "zeros3 = (0, 0, 0)"

definition eye3 :: mat3 where
  "eye3 = ((1, 0, 0), (0, 1, 0), (0, 0, 1))"

definition eye4 :: mat4 where
  "eye4 = ((1, 0, 0, 0), (0, 1, 0, 0), (0, 0, 1, 0), (0, 0, 0, 1))"

text \<open>\<open>np.stack([c0, c1, c2], axis=1)\<close>: the matrix whose columns are the three vectors.\<close>

fun stack_axis1 :: "vec3 \<Rightarrow> vec3 \<Rightarrow> vec3 \<Rightarrow> mat3" where
  "stack_axis1 (a1, a2, a3) (b1, b2, b3) (c1, c2, c3) =
     ((a1, b1, c1), (a2, b2, c2), (a3, b3, c3))"

text \<open>The column \<open>M[:3, j]\<close> of a 3x3 matrix, for the three values of \<open>j\<close>.\<close>

fun col3_0 :: "mat3 \<Rightarrow> vec3" where
  "col3_0 ((a1, b1, c1), (a2, b2, c2), (a3, b3, c3)) = (a1, a2, a3)"

fun col3_1 :: "mat3 \<Rightarrow> vec3" where
  "col3_1 ((a1, b1, c1), (a2, b2, c2), (a3, b3, c3)) = (b1, b2, b3)"

fun col3_2 :: "mat3 \<Rightarrow> vec3" where
  "col3_2 ((a1, b1, c1), (a2, b2, c2), (a3, b3, c3)) = (c1, c2, c3)"

text \<open>\<open>M @ v\<close> and \<open>A @ B\<close> for 3x3 matrices, \<open>k * M\<close>, \<open>A + B\<close>.\<close>

fun matvec3 :: "mat3 \<Rightarrow> vec3 \<Rightarrow> vec3" where
  "matvec3 (r1, r2, r3) v = (dot3 r1 v, dot3 r2 v, dot3 r3 v)"

fun vecmat3 :: "vec3 \<Rightarrow> mat3 \<Rightarrow> vec3" where
  "vecmat3 (a1, a2, a3) ((b11, b12, b13), (b21, b22, b23), (b31, b32, b33)) =
     (a1 * b11 + a2 * b21 + a3 * b31,
      a1 * b12 + a2 * b22 + a3 * b32,
      a1 * b13 + a2 * b23 + a3 * b33)"

fun matmul3 :: "mat3 \<Rightarrow> mat3 \<Rightarrow> mat3" where
  "matmul3 (r1, r2, r3) B = (vecmat3 r1 B, vecmat3 r2 B, vecmat3 r3 B)"

fun scale_mat3 :: "real \<Rightarrow> mat3 \<Rightarrow> mat3" where
  "scale_mat3 k (r1, r2, r3) = (scale3 k r1, scale3 k r2, scale3 k r3)"

fun add_mat3 :: "mat3 \<Rightarrow> mat3 \<Rightarrow> mat3" where
  "add_mat3 (r1, r2, r3) (s1, s2, s3) = (add3 r1 s1, add3 r2 s2, add3 r3 s3)"

text \<open>\<open>A @ B\<close> for 4x4 matrices.\<close>

fun vecmat4 :: "vec4 \<Rightarrow> mat4 \<Rightarrow> vec4" where
  "vecmat4 (a1, a2, a3, a4)
     ((b11, b12, b13, b14), (b21, b22, b23, b24), (b31, b32, b33, b34), (b41, b42, b43, b44)) =
     (a1 * b11 + a2 * b21 + a3 * b31 + a4 * b41,
      a1 * b12 + a2 * b22 + a3 * b32 + a4 * b42,
      a1 * b13 + a2 * b23 + a3 * b33 + a4 * b43,
      a1 * b14 + a2 * b24 + a3 * b34 + a4 * b44)"

fun matmul4 :: "mat4 \<Rightarrow> mat4 \<Rightarrow> mat4" where
  "matmul4 (r1, r2, r3, r4) B = (vecmat4 r1 B, vecmat4 r2 B, vecmat4 r3 B, vecmat4 r4 B)"

fun scale4 :: "real \<Rightarrow> vec4 \<Rightarrow> vec4" where
  "scale4 k (a1, a2, a3, a4) = (k * a1, k * a2, k * a3, k * a4)"

fun scale_mat4 :: "real \<Rightarrow> mat4 \<Rightarrow> mat4" where
  "scale_mat4 k (r1, r2, r3, r4) = (scale4 k r1, scale4 k r2, scale4 k r3, scale4 k r4)"

text \<open>The slice assignments \<open>T[:3, :3] = R\<close>, \<open>T[:3, 3] = v\<close>, \<open>T[2, 3] = x\<close>,
  \<open>T[:3, 3] -= v\<close>, and the reads \<open>T[:3, :3]\<close>, \<open>T[:3, 3]\<close>.\<close>

fun set_block3 :: "mat4 \<Rightarrow> mat3 \<Rightarrow> mat4" where
  "set_block3 ((t11, t12, t13, t14), (t21, t22, t23, t24), (t31, t32, t33, t34), r4)
     ((a1, b1, c1), (a2, b2, c2), (a3, b3, c3)) =
     ((a1, b1, c1, t14), (a2, b2, c2, t24), (a3, b3, c3, t34), r4)"

fun set_col3 :: "mat4 \<Rightarrow> vec3 \<Rightarrow> mat4" where
  "set_col3 ((t11, t12, t13, t14), (t21, t22, t23, t24), (t31, t32, t33, t34), r4) (x, y, z) =
     ((t11, t12, t13, x), (t21, t22, t23, y), (t31, t32, t33, z), r4)"

fun set_23 :: "mat4 \<Rightarrow> real \<Rightarrow> mat4" where
  "set_23 (r1, r2, (t31, t32, t33, t34), r4) x = (r1, r2, (t31, t32, t33, x), r4)"

fun get_block3 :: "mat4 \<Rightarrow> mat3" where
  "get_block3 ((t11, t12, t13, t14), (t21, t22, t23, t24), (t31, t32, t33, t34), r4) =
     ((t11, t12, t13), (t21, t22, t23), (t31, t32, t33))"

fun get_col3 :: "mat4 \<Rightarrow> vec3" where
  "get_col3 ((t11, t12, t13, t14), (t21, t22, t23, t24), (t31, t32, t33, t34), r4) =
     (t14, t24, t34)"

definition sub_col3 :: "mat4 \<Rightarrow> vec3 \<Rightarrow> mat4" where
  "sub_col3 T v = set_col3 T (sub3 (get_col3 T) v)"

subsection \<open>The helper imported from kiui.op\<close>

text \<open>
  Modelled from the spec: \<open>safe_normalize\<close> comes from the module \<open>kiui.op\<close>
  (\<open>from .op import *\<close>), which is not among the sources. The specification calls it
  normalize: the vector divided by its Euclidean length, so that the result has unit
  length. For the zero vector the specification describes a NaN result, which a real
  number cannot hold; no statement about this embedding depends on that case, and
  \<open>safe_normalize_np\<close> below returns NaN there.
\<close>

definition safe_normalize :: "vec3 \<Rightarrow> vec3" where
  "safe_normalize v = scale3 (1 / norm3 v) v"

subsection \<open>look\_at, orbit\_camera, undo\_orbit\_camera, get\_perspective\<close>

definition look_at :: "vec3 \<Rightarrow> vec3 \<Rightarrow> bool \<Rightarrow> mat3" where
  "look_at campos target opengl =
     (if \<not> opengl then
        (let forward_vector = safe_normalize (sub3 target campos);
             up_vector = (0, 1, 0);
             right_vector = safe_normalize (cross forward_vector up_vector);
             up_vector = safe_normalize (cross right_vector forward_vector)
         in stack_axis1 right_vector up_vector forward_vector)
      else
        (let forward_vector = safe_normalize (sub3 campos target);
             up_vector = (0, 1, 0);
             right_vector = safe_normalize (cross up_vector forward_vector);
             up_vector = safe_normalize (cross forward_vector right_vector)
         in stack_axis1 right_vector up_vector forward_vector))"

text \<open>\<open>target = None\<close> is the default of \<open>orbit_camera\<close> and stands for the origin.\<close>

definition orbit_camera ::
  "real \<Rightarrow> real \<Rightarrow> real \<Rightarrow> bool \<Rightarrow> vec3 option \<Rightarrow> bool \<Rightarrow> mat4" where
  "orbit_camera elevation azimuth radius is_degree target opengl =
     (let elevation = (if is_degree then deg2rad elevation else elevation);
          azimuth = (if is_degree then deg2rad azimuth else azimuth);
          x = radius * cos elevation * sin azimuth;
          y = - radius * sin elevation;
          z = radius * cos elevation * cos azimuth;
          target = (case target of None \<Rightarrow> zeros3 | Some t \<Rightarrow> t);
          campos = add3 (x, y, z) target;
          T = eye4;
          T = set_block3 T (look_at campos target opengl);
          T = set_col3 T campos
      in T)"

definition undo_orbit_camera :: "mat4 \<Rightarrow> bool \<Rightarrow> real \<times> real \<times> real" where
  "undo_orbit_camera T is_degree =
     (let campos = get_col3 T;
          radius = norm3 campos;
          elevation = arcsin (- (fst (snd campos)) / radius);
          azimuth = arctan2 (fst campos) (snd (snd campos));
          elevation = (if is_degree then rad2deg elevation else elevation);
          azimuth = (if is_degree then rad2deg azimuth else azimuth)
      in (elevation, azimuth, radius))"

text \<open>
  The arguments \<open>aspect\<close>, \<open>near\<close> and \<open>far\<close> of \<open>get_perspective\<close> are Python numbers
  (its defaults are \<open>1\<close>, \<open>0.01\<close> and \<open>1000\<close>), so the two quotients by \<open>far - near\<close> are
  Python divisions, which raise ZeroDivisionError on a zero divisor. \<open>y\<close> is a numpy
  scalar, and the quotients by \<open>y * aspect\<close> and by \<open>y\<close> are numpy divisions, which do
  not raise. The list literal is evaluated row by row, so the numpy quotients come first.
  Called with numpy scalars for \<open>near\<close> or \<open>far\<close>, the quotients by \<open>far - near\<close> are numpy
  divisions as well; \<open>get_perspective_dyn\<close> below covers both kinds of argument.
\<close>

definition py_div :: "real \<Rightarrow> real \<Rightarrow> py_error + real" where
  "py_div a b = (if b = 0 then Inl ZeroDivisionError else Inr (a / b))"

definition perspective_matrix ::
  "real \<Rightarrow> real \<Rightarrow> real \<Rightarrow> real \<Rightarrow> py_error + mat4" where
  "perspective_matrix y aspect near far =
     (case py_div (- (far + near)) (far - near) of
        Inl e \<Rightarrow> Inl e
      | Inr m22 \<Rightarrow>
          (case py_div (- (2 * far * near)) (far - near) of
             Inl e \<Rightarrow> Inl e
           | Inr m23 \<Rightarrow>
               Inr ((1 / (y * aspect), 0, 0, 0),
                    (0, - 1 / y, 0, 0),
                    (0, 0, m22, m23),
                    (0, 0, - 1, 0))))"

definition get_perspective :: "real \<Rightarrow> real \<Rightarrow> real \<Rightarrow> real \<Rightarrow> py_error + mat4" where
  "get_perspective fovy aspect near far =
     (let y = tan (deg2rad fovy / 2) in perspective_matrix y aspect near far)"

subsection \<open>scipy's Rotation\<close>

text \<open>
  A \<open>scipy.spatial.transform.Rotation\<close> is represented by its rotation matrix:
  \<open>as_matrix\<close> reads it, \<open>*\<close> composes two rotations and is the matrix product, and
  \<open>from_rotvec v\<close> is the rotation about the direction of \<open>v\<close> by the angle \<open>|v|\<close>
  (Rodrigues' formula, the identity for the zero vector). \<open>from_matrix\<close> returns the
  rotation with the given matrix when that matrix is a rotation matrix; what scipy does
  with any other matrix is not represented.
\<close>

fun skew :: "vec3 \<Rightarrow> mat3" where
  "skew (x, y, z) = ((0, - z, y), (z, 0, - x), (- y, x, 0))"

definition from_rotvec :: "vec3 \<Rightarrow> mat3" where
  "from_rotvec v =
     (let angle = norm3 v in
      if angle = 0 then eye3
      else add_mat3 eye3
             (add_mat3 (scale_mat3 (sin angle / angle) (skew v))
                       (scale_mat3 ((1 - cos angle) / angle\<^sup>2) (matmul3 (skew v) (skew v)))))"

definition from_matrix :: "mat3 \<Rightarrow> mat3" where
  "from_matrix M = M"

definition as_matrix :: "mat3 \<Rightarrow> mat3" where
  "as_matrix R = R"

subsection \<open>\<open>np.linalg.inv\<close>\<close>

text \<open>
  \<open>np.linalg.inv\<close> returns the inverse of a square matrix and raises LinAlgError for a
  singular one. In exact arithmetic the inverse is the adjugate divided by the
  determinant.
\<close>

fun det3 :: "mat3 \<Rightarrow> real" where
  "det3 ((a, b, c), (d, e, f), (g, h, i)) =
     a * (e * i - f * h) - b * (d * i - f * g) + c * (d * h - e * g)"

fun drop4 :: "nat \<Rightarrow> vec4 \<Rightarrow> vec3" where
  "drop4 j (a, b, c, d) =
     (if j = 0 then (b, c, d) else if j = 1 then (a, c, d)
      else if j = 2 then (a, b, d) else (a, b, c))"

fun minor4 :: "nat \<Rightarrow> nat \<Rightarrow> mat4 \<Rightarrow> mat3" where
  "minor4 i j (r1, r2, r3, r4) =
     (if i = 0 then (drop4 j r2, drop4 j r3, drop4 j r4)
      else if i = 1 then (drop4 j r1, drop4 j r3, drop4 j r4)
      else if i = 2 then (drop4 j r1, drop4 j r2, drop4 j r4)
      else (drop4 j r1, drop4 j r2, drop4 j r3))"

definition cofactor4 :: "nat \<Rightarrow> nat \<Rightarrow> mat4 \<Rightarrow> real" where
  "cofactor4 i j M = (if even (i + j) then 1 else - 1) * det3 (minor4 i j M)"

fun det4 :: "mat4 \<Rightarrow> real" where
  "det4 ((a, b, c, d), r2, r3, r4) =
     (let M = ((a, b, c, d), r2, r3, r4) in
      a * cofactor4 0 0 M + b * cofactor4 0 1 M + c * cofactor4 0 2 M + d * cofactor4 0 3 M)"

definition adjugate4 :: "mat4 \<Rightarrow> mat4" where
  "adjugate4 M =
     ((cofactor4 0 0 M, cofactor4 1 0 M, cofactor4 2 0 M, cofactor4 3 0 M),
      (cofactor4 0 1 M, cofactor4 1 1 M, cofactor4 2 1 M, cofactor4 3 1 M),
      (cofactor4 0 2 M, cofactor4 1 2 M, cofactor4 2 2 M, cofactor4 3 2 M),
      (cofactor4 0 3 M, cofactor4 1 3 M, cofactor4 2 3 M, cofactor4 3 3 M))"

definition inv4 :: "mat4 \<Rightarrow> py_error + mat4" where
  "inv4 M =
     (let d = det4 M in
      if d = 0 then Inl LinAlgError else Inr (scale_mat4 (1 / d) (adjugate4 M)))"

subsection \<open>The class OrbitCamera\<close>

record OrbitCamera =
  W :: int
  H :: int
  radius :: real
  fovy :: real
  near :: real
  far :: real
  center :: vec3
  rot :: mat3
  up :: vec3

text \<open>\<open>__init__(W, H, r=2, fovy=60, near=0.01, far=100)\<close>.\<close>

definition init :: "int \<Rightarrow> int \<Rightarrow> real \<Rightarrow> real \<Rightarrow> real \<Rightarrow> real \<Rightarrow> OrbitCamera" where
  "init w h r fovy_deg near_clip far_clip =
     \<lparr> W = w, H = h, radius = r, fovy = deg2rad fovy_deg, near = near_clip, far = far_clip,
       center = (0, 0, 0), rot = from_matrix eye3, up = (0, 1, 0) \<rparr>"

definition pose :: "OrbitCamera \<Rightarrow> mat4" where
  "pose self =
     (let res = eye4;
          res = set_23 res (radius self);
          rot4 = eye4;
          rot4 = set_block3 rot4 (as_matrix (rot self));
          res = matmul4 rot4 res;
          res = sub_col3 res (center self)
      in res)"

definition campos :: "OrbitCamera \<Rightarrow> vec3" where
  "campos self = get_col3 (pose self)"

definition fovx :: "OrbitCamera \<Rightarrow> real" where
  "fovx self = 2 * arctan (tan (fovy self / 2) * real_of_int (W self) / real_of_int (H self))"

definition view :: "OrbitCamera \<Rightarrow> py_error + mat4" where
  "view self = inv4 (pose self)"

text \<open>\<open>self.W / self.H\<close> is a division of two Python integers, which raises
  ZeroDivisionError for \<open>H = 0\<close>.\<close>

definition perspective :: "OrbitCamera \<Rightarrow> py_error + mat4" where
  "perspective self =
     (let y = tan (fovy self / 2) in
      case py_div (real_of_int (W self)) (real_of_int (H self)) of
        Inl e \<Rightarrow> Inl e
      | Inr aspect \<Rightarrow> perspective_matrix y aspect (near self) (far self))"

text \<open>\<open>self.W // 2\<close> and \<open>self.H // 2\<close> are floor divisions of Python integers.\<close>

definition intrinsics :: "OrbitCamera \<Rightarrow> vec4" where
  "intrinsics self =
     (let focal = real_of_int (H self) / (2 * tan (fovy self / 2))
      in (focal, focal, real_of_int (W self div 2), real_of_int (H self div 2)))"

definition mvp :: "OrbitCamera \<Rightarrow> py_error + mat4" where
  "mvp self =
     (case perspective self of
        Inl e \<Rightarrow> Inl e
      | Inr P \<Rightarrow> (case inv4 (pose self) of Inl e \<Rightarrow> Inl e | Inr V \<Rightarrow> Inr (matmul4 P V)))"

definition orbit :: "real \<Rightarrow> real \<Rightarrow> OrbitCamera \<Rightarrow> OrbitCamera" where
  "orbit dx dy self =
     (let side = col3_0 (as_matrix (rot self));
          rotvec_x = scale3 (deg2rad (- 0.05 * dx)) (up self);
          rotvec_y = scale3 (deg2rad (- 0.05 * dy)) side
      in self\<lparr>rot := matmul3 (matmul3 (from_rotvec rotvec_x) (from_rotvec rotvec_y)) (rot self)\<rparr>)"

definition scale :: "real \<Rightarrow> OrbitCamera \<Rightarrow> OrbitCamera" where
  "scale delta self = self\<lparr>radius := radius self * (11 / 10) powr (- delta)\<rparr>"

definition pan :: "real \<Rightarrow> real \<Rightarrow> real \<Rightarrow> OrbitCamera \<Rightarrow> OrbitCamera" where
  "pan dx dy dz self =
     self\<lparr>center := add3 (center self)
        (matvec3 (scale_mat3 0.0005 (as_matrix (rot self))) (dx, - dy, dz))\<rparr>"

definition from_angle :: "real \<Rightarrow> real \<Rightarrow> bool \<Rightarrow> OrbitCamera \<Rightarrow> OrbitCamera" where
  "from_angle elevation azimuth is_degree self =
     (let elevation = (if is_degree then deg2rad elevation else elevation);
          azimuth = (if is_degree then deg2rad azimuth else azimuth);
          x = radius self * cos elevation * sin azimuth;
          y = - radius self * sin elevation;
          z = radius self * cos elevation * cos azimuth;
          campos = (x, y, z);
          rot_mat = look_at campos zeros3 True
      in self\<lparr>rot := from_matrix rot_mat\<rparr>)"

subsection \<open>Notions of the specification\<close>

text \<open>
  A matrix has orthonormal columns when each column has unit length and any two columns
  are orthogonal; it is a proper rotation when, in addition, its determinant is 1.
\<close>

definition orthonormal_columns :: "mat3 \<Rightarrow> bool" where
  "orthonormal_columns M \<longleftrightarrow>
     norm3 (col3_0 M) = 1 \<and> norm3 (col3_1 M) = 1 \<and> norm3 (col3_2 M) = 1
     \<and> dot3 (col3_0 M) (col3_1 M) = 0 \<and> dot3 (col3_0 M) (col3_2 M) = 0
     \<and> dot3 (col3_1 M) (col3_2 M) = 0"

definition proper_rotation :: "mat3 \<Rightarrow> bool" where
  "proper_rotation M \<longleftrightarrow> orthonormal_columns M \<and> det3 M = 1"

text \<open>
  The specification's axis-angle rotation: the rotation about the unit vector \<open>axis\<close> by
  the signed angle \<open>angle\<close>, counter-clockwise seen against the axis. This definition
  follows the words of the specification; \<open>from_rotvec\<close> above is what the code calls.
\<close>

definition rotation_about :: "vec3 \<Rightarrow> real \<Rightarrow> mat3" where
  "rotation_about axis angle =
     add_mat3 eye3
       (add_mat3 (scale_mat3 (sin angle) (skew axis))
                 (scale_mat3 (1 - cos angle) (matmul3 (skew axis) (skew axis))))"

text \<open>
  Two states agree on the fields that are set at construction only: the viewport, the
  field of view, the clip planes and the up vector.
\<close>

definition same_construction_fields :: "OrbitCamera \<Rightarrow> OrbitCamera \<Rightarrow> bool" where
  "same_construction_fields s s' \<longleftrightarrow>
     W s' = W s \<and> H s' = H s \<and> fovy s' = fovy s \<and> near s' = near s \<and> far s' = far s
     \<and> up s' = up s"

subsection \<open>States of an interaction session\<close>

text \<open>
  The states a camera goes through: built by the constructor with a positive radius, then
  changed by the four mutators. \<open>from_angle\<close> is taken with an elevation in the range that
  the module documents, (-90, 90) degrees, away from the singularity of \<open>look_at\<close>.
\<close>

inductive reachable :: "OrbitCamera \<Rightarrow> bool" where
  constructed: "0 < r \<Longrightarrow> reachable (init w h r fovy_deg near_clip far_clip)"
| orbited: "reachable s \<Longrightarrow> reachable (orbit dx dy s)"
| scaled: "reachable s \<Longrightarrow> reachable (scale delta s)"
| panned: "reachable s \<Longrightarrow> reachable (pan dx dy dz s)"
| snapped: "reachable s \<Longrightarrow> - 90 < e \<Longrightarrow> e < 90 \<Longrightarrow> reachable (from_angle e a True s)"

subsection \<open>Special values, dynamic types and exceptions\<close>

text \<open>
  The real-number embedding above has no place for the special values of numpy and no way
  to tell a Python number from a numpy scalar, and both decide whether an operation
  raises. The definitions of this subsection embed the same source lines once more at
  that level. A numpy value is a real number, an infinity or NaN; arithmetic on finite
  values is exact, and the special cases follow IEEE 754 (a zero divisor gives an infinity
  with the sign of the dividend, or NaN for \<open>0 / 0\<close>; \<open>inf - inf\<close> and \<open>0 * inf\<close> are NaN). Zero
  carries no sign and finite results do not overflow.
\<close>

datatype npfloat = Fin real | PInf | NInf | NaN

type_synonym nvec3 = "npfloat \<times> npfloat \<times> npfloat"
type_synonym nvec4 = "npfloat \<times> npfloat \<times> npfloat \<times> npfloat"
type_synonym nmat3 = "nvec3 \<times> nvec3 \<times> nvec3"
type_synonym nmat4 = "nvec4 \<times> nvec4 \<times> nvec4 \<times> nvec4"

fun np_neg :: "npfloat \<Rightarrow> npfloat" where
  "np_neg (Fin x) = Fin (- x)"
| "np_neg PInf = NInf"
| "np_neg NInf = PInf"
| "np_neg NaN = NaN"

fun np_add :: "npfloat \<Rightarrow> npfloat \<Rightarrow> npfloat" where
  "np_add (Fin x) (Fin y) = Fin (x + y)"
| "np_add NaN b = NaN"
| "np_add a NaN = NaN"
| "np_add PInf NInf = NaN"
| "np_add NInf PInf = NaN"
| "np_add PInf b = PInf"
| "np_add a PInf = PInf"
| "np_add NInf b = NInf"
| "np_add a NInf = NInf"

definition np_sub :: "npfloat \<Rightarrow> npfloat \<Rightarrow> npfloat" where
  "np_sub a b = np_add a (np_neg b)"

fun np_mul :: "npfloat \<Rightarrow> npfloat \<Rightarrow> npfloat" where
  "np_mul (Fin x) (Fin y) = Fin (x * y)"
| "np_mul NaN b = NaN"
| "np_mul a NaN = NaN"
| "np_mul PInf (Fin y) = (if y = 0 then NaN else if 0 < y then PInf else NInf)"
| "np_mul NInf (Fin y) = (if y = 0 then NaN else if 0 < y then NInf else PInf)"
| "np_mul (Fin x) PInf = (if x = 0 then NaN else if 0 < x then PInf else NInf)"
| "np_mul (Fin x) NInf = (if x = 0 then NaN else if 0 < x then NInf else PInf)"
| "np_mul PInf PInf = PInf"
| "np_mul NInf NInf = PInf"
| "np_mul PInf NInf = NInf"
| "np_mul NInf PInf = NInf"

fun np_div :: "npfloat \<Rightarrow> npfloat \<Rightarrow> npfloat" where
  "np_div (Fin x) (Fin y) =
     (if y = 0 then (if x = 0 then NaN else if 0 < x then PInf else NInf) else Fin (x / y))"
| "np_div NaN b = NaN"
| "np_div a NaN = NaN"
| "np_div (Fin x) PInf = Fin 0"
| "np_div (Fin x) NInf = Fin 0"
| "np_div PInf (Fin y) = (if 0 \<le> y then PInf else NInf)"
| "np_div NInf (Fin y) = (if 0 \<le> y then NInf else PInf)"
| "np_div PInf PInf = NaN"
| "np_div PInf NInf = NaN"
| "np_div NInf PInf = NaN"
| "np_div NInf NInf = NaN"

fun np_sqrt :: "npfloat \<Rightarrow> npfloat" where
  "np_sqrt (Fin x) = (if x < 0 then NaN else Fin (sqrt x))"
| "np_sqrt PInf = PInf"
| "np_sqrt NInf = NaN"
| "np_sqrt NaN = NaN"

fun np_arcsin :: "npfloat \<Rightarrow> npfloat" where
  "np_arcsin (Fin x) = (if \<bar>x\<bar> \<le> 1 then Fin (arcsin x) else NaN)"
| "np_arcsin PInf = NaN"
| "np_arcsin NInf = NaN"
| "np_arcsin NaN = NaN"

fun np_arctan :: "npfloat \<Rightarrow> npfloat" where
  "np_arctan (Fin x) = Fin (arctan x)"
| "np_arctan PInf = Fin (pi / 2)"
| "np_arctan NInf = Fin (- (pi / 2))"
| "np_arctan NaN = NaN"

fun finite_np :: "npfloat \<Rightarrow> bool" where
  "finite_np (Fin x) = True"
| "finite_np PInf = False"
| "finite_np NInf = False"
| "finite_np NaN = False"

fun value_np :: "npfloat \<Rightarrow> real" where
  "value_np (Fin x) = x"
| "value_np PInf = 0"
| "value_np NInf = 0"
| "value_np NaN = 0"

fun lift3 :: "vec3 \<Rightarrow> nvec3" where
  "lift3 (a1, a2, a3) = (Fin a1, Fin a2, Fin a3)"

fun lift4 :: "vec4 \<Rightarrow> nvec4" where
  "lift4 (a1, a2, a3, a4) = (Fin a1, Fin a2, Fin a3, Fin a4)"

fun lift_mat3 :: "mat3 \<Rightarrow> nmat3" where
  "lift_mat3 (r1, r2, r3) = (lift3 r1, lift3 r2, lift3 r3)"

fun lift_mat4 :: "mat4 \<Rightarrow> nmat4" where
  "lift_mat4 (r1, r2, r3, r4) = (lift4 r1, lift4 r2, lift4 r3, lift4 r4)"

fun finite3 :: "nvec3 \<Rightarrow> bool" where
  "finite3 (a1, a2, a3) \<longleftrightarrow> finite_np a1 \<and> finite_np a2 \<and> finite_np a3"

fun value3 :: "nvec3 \<Rightarrow> vec3" where
  "value3 (a1, a2, a3) = (value_np a1, value_np a2, value_np a3)"

fun finite_mat3 :: "nmat3 \<Rightarrow> bool" where
  "finite_mat3 (r1, r2, r3) \<longleftrightarrow> finite3 r1 \<and> finite3 r2 \<and> finite3 r3"

fun value_mat3 :: "nmat3 \<Rightarrow> mat3" where
  "value_mat3 (r1, r2, r3) = (value3 r1, value3 r2, value3 r3)"

fun sub3_np :: "nvec3 \<Rightarrow> nvec3 \<Rightarrow> nvec3" where
  "sub3_np (a1, a2, a3) (b1, b2, b3) = (np_sub a1 b1, np_sub a2 b2, np_sub a3 b3)"

fun dot3_np :: "nvec3 \<Rightarrow> nvec3 \<Rightarrow> npfloat" where
  "dot3_np (a1, a2, a3) (b1, b2, b3) =
     np_add (np_add (np_mul a1 b1) (np_mul a2 b2)) (np_mul a3 b3)"

fun cross_np :: "nvec3 \<Rightarrow> nvec3 \<Rightarrow> nvec3" where
  "cross_np (a1, a2, a3) (b1, b2, b3) =
     (np_sub (np_mul a2 b3) (np_mul a3 b2),
      np_sub (np_mul a3 b1) (np_mul a1 b3),
      np_sub (np_mul a1 b2) (np_mul a2 b1))"

text \<open>\<open>np.linalg.norm\<close> and the vector operations of \<open>look_at\<close> on numpy values.\<close>

definition norm3_np :: "nvec3 \<Rightarrow> npfloat" where
  "norm3_np v = np_sqrt (dot3_np v v)"

fun div3_np :: "nvec3 \<Rightarrow> npfloat \<Rightarrow> nvec3" where
  "div3_np (a1, a2, a3) k = (np_div a1 k, np_div a2 k, np_div a3 k)"

text \<open>
  Modelled from the spec: \<open>safe_normalize\<close> of \<open>kiui.op\<close>, which is not among the sources, on
  numpy values: the vector divided by its length. For the zero vector each quotient is
  \<open>0 / 0\<close>, the NaN propagation that the specification describes for \<open>campos = target\<close>.
\<close>

definition safe_normalize_np :: "nvec3 \<Rightarrow> nvec3" where
  "safe_normalize_np v = div3_np v (norm3_np v)"

fun stack_axis1_np :: "nvec3 \<Rightarrow> nvec3 \<Rightarrow> nvec3 \<Rightarrow> nmat3" where
  "stack_axis1_np (a1, a2, a3) (b1, b2, b3) (c1, c2, c3) =
     ((a1, b1, c1), (a2, b2, c2), (a3, b3, c3))"

definition look_at_np :: "vec3 \<Rightarrow> vec3 \<Rightarrow> bool \<Rightarrow> nmat3" where
  "look_at_np cam_pos target opengl =
     (if \<not> opengl then
        (let forward_vector = safe_normalize_np (lift3 (sub3 target cam_pos));
             up_vector = lift3 (0, 1, 0);
             right_vector = safe_normalize_np (cross_np forward_vector up_vector);
             up_vector = safe_normalize_np (cross_np right_vector forward_vector)
         in stack_axis1_np right_vector up_vector forward_vector)
      else
        (let forward_vector = safe_normalize_np (lift3 (sub3 cam_pos target));
             up_vector = lift3 (0, 1, 0);
             right_vector = safe_normalize_np (cross_np up_vector forward_vector);
             up_vector = safe_normalize_np (cross_np forward_vector right_vector)
         in stack_axis1_np right_vector up_vector forward_vector))"

fun set_block3_np :: "nmat4 \<Rightarrow> nmat3 \<Rightarrow> nmat4" where
  "set_block3_np ((t11, t12, t13, t14), (t21, t22, t23, t24), (t31, t32, t33, t34), r4)
     ((a1, b1, c1), (a2, b2, c2), (a3, b3, c3)) =
     ((a1, b1, c1, t14), (a2, b2, c2, t24), (a3, b3, c3, t34), r4)"

fun set_col3_np :: "nmat4 \<Rightarrow> nvec3 \<Rightarrow> nmat4" where
  "set_col3_np ((t11, t12, t13, t14), (t21, t22, t23, t24), (t31, t32, t33, t34), r4) (x, y, z) =
     ((t11, t12, t13, x), (t21, t22, t23, y), (t31, t32, t33, z), r4)"

fun get_block3_np :: "nmat4 \<Rightarrow> nmat3" where
  "get_block3_np ((t11, t12, t13, t14), (t21, t22, t23, t24), (t31, t32, t33, t34), r4) =
     ((t11, t12, t13), (t21, t22, t23), (t31, t32, t33))"

fun vecmat4_np :: "nvec4 \<Rightarrow> nmat4 \<Rightarrow> nvec4" where
  "vecmat4_np (a1, a2, a3, a4)
     ((b11, b12, b13, b14), (b21, b22, b23, b24), (b31, b32, b33, b34), (b41, b42, b43, b44)) =
     (np_add (np_add (np_add (np_mul a1 b11) (np_mul a2 b21)) (np_mul a3 b31)) (np_mul a4 b41),
      np_add (np_add (np_add (np_mul a1 b12) (np_mul a2 b22)) (np_mul a3 b32)) (np_mul a4 b42),
      np_add (np_add (np_add (np_mul a1 b13) (np_mul a2 b23)) (np_mul a3 b33)) (np_mul a4 b43),
      np_add (np_add (np_add (np_mul a1 b14) (np_mul a2 b24)) (np_mul a3 b34)) (np_mul a4 b44))"

fun matmul4_np :: "nmat4 \<Rightarrow> nmat4 \<Rightarrow> nmat4" where
  "matmul4_np (r1, r2, r3, r4) B =
     (vecmat4_np r1 B, vecmat4_np r2 B, vecmat4_np r3 B, vecmat4_np r4 B)"

definition orbit_camera_np ::
  "real \<Rightarrow> real \<Rightarrow> real \<Rightarrow> bool \<Rightarrow> vec3 option \<Rightarrow> bool \<Rightarrow> nmat4" where
  "orbit_camera_np elevation azimuth r is_degree target opengl =
     (let elevation = (if is_degree then deg2rad elevation else elevation);
          azimuth = (if is_degree then deg2rad azimuth else azimuth);
          x = r * cos elevation * sin azimuth;
          y = - r * sin elevation;
          z = r * cos elevation * cos azimuth;
          target = (case target of None \<Rightarrow> zeros3 | Some t \<Rightarrow> t);
          cam_pos = add3 (x, y, z) target;
          T = lift_mat4 eye4;
          T = set_block3_np T (look_at_np cam_pos target opengl);
          T = set_col3_np T (lift3 cam_pos)
      in T)"

definition rad2deg_np :: "npfloat \<Rightarrow> npfloat" where
  "rad2deg_np x = np_mul x (Fin (180 / pi))"

definition undo_orbit_camera_np :: "mat4 \<Rightarrow> bool \<Rightarrow> npfloat \<times> npfloat \<times> npfloat" where
  "undo_orbit_camera_np T is_degree =
     (let cam_pos = get_col3 T;
          r = norm3 cam_pos;
          elevation = np_arcsin (np_div (Fin (- (fst (snd cam_pos)))) (Fin r));
          azimuth = Fin (arctan2 (fst cam_pos) (snd (snd cam_pos)));
          elevation = (if is_degree then rad2deg_np elevation else elevation);
          azimuth = (if is_degree then rad2deg_np azimuth else azimuth)
      in (elevation, azimuth, Fin r))"

text \<open>
  A scalar argument is a Python number or a numpy scalar. Python arithmetic on two Python
  numbers gives a Python number; as soon as one operand is a numpy scalar the operation
  is numpy's. A Python division by zero raises ZeroDivisionError, a Python power whose
  result exceeds the largest float raises OverflowError; the numpy operations return a
  special value instead.
\<close>

datatype scalar = Py real | Np real

fun is_py :: "scalar \<Rightarrow> bool" where
  "is_py (Py a) = True"
| "is_py (Np a) = False"

fun val :: "scalar \<Rightarrow> real" where
  "val (Py a) = a"
| "val (Np a) = a"

fun s_neg :: "scalar \<Rightarrow> scalar" where
  "s_neg (Py a) = Py (- a)"
| "s_neg (Np a) = Np (- a)"

fun s_add :: "scalar \<Rightarrow> scalar \<Rightarrow> scalar" where
  "s_add (Py a) (Py b) = Py (a + b)"
| "s_add a b = Np (val a + val b)"

fun s_sub :: "scalar \<Rightarrow> scalar \<Rightarrow> scalar" where
  "s_sub (Py a) (Py b) = Py (a - b)"
| "s_sub a b = Np (val a - val b)"

fun s_mul :: "scalar \<Rightarrow> scalar \<Rightarrow> scalar" where
  "s_mul (Py a) (Py b) = Py (a * b)"
| "s_mul a b = Np (val a * val b)"

fun s_div :: "scalar \<Rightarrow> scalar \<Rightarrow> py_error + npfloat" where
  "s_div (Py a) (Py b) = (if b = 0 then Inl ZeroDivisionError else Inr (Fin (a / b)))"
| "s_div a b = Inr (np_div (Fin (val a)) (Fin (val b)))"

text \<open>The largest finite double, \<open>(2 ^ 53 - 1) * 2 ^ 971\<close>.\<close>

definition max_float :: real where
  "max_float = (2 ^ 53 - 1) * 2 ^ 971"

fun s_pow :: "scalar \<Rightarrow> scalar \<Rightarrow> py_error + real" where
  "s_pow (Py a) (Py b) = (if max_float < a powr b then Inl OverflowError else Inr (a powr b))"
| "s_pow a b = Inr (val a powr val b)"

text \<open>
  The matrix literal shared by \<open>get_perspective\<close> and the \<open>perspective\<close> property. \<open>y\<close> is a
  numpy scalar in both, so the quotients by \<open>y * aspect\<close> and \<open>y\<close> are numpy divisions; the
  quotients by \<open>far - near\<close> are Python divisions exactly when \<open>near\<close> and \<open>far\<close> are both
  Python numbers.
\<close>

definition perspective_rows ::
  "real \<Rightarrow> real \<Rightarrow> scalar \<Rightarrow> scalar \<Rightarrow> py_error + nmat4" where
  "perspective_rows y aspect near_clip far_clip =
     (case s_div (s_neg (s_add far_clip near_clip)) (s_sub far_clip near_clip) of
        Inl e \<Rightarrow> Inl e
      | Inr m22 \<Rightarrow>
          (case s_div (s_neg (s_mul (s_mul (Py 2) far_clip) near_clip))
                  (s_sub far_clip near_clip) of
             Inl e \<Rightarrow> Inl e
           | Inr m23 \<Rightarrow>
               Inr ((np_div (Fin 1) (Fin (y * aspect)), Fin 0, Fin 0, Fin 0),
                    (Fin 0, np_div (Fin (- 1)) (Fin y), Fin 0, Fin 0),
                    (Fin 0, Fin 0, m22, m23),
                    (Fin 0, Fin 0, Fin (- 1), Fin 0))))"

definition get_perspective_dyn ::
  "real \<Rightarrow> real \<Rightarrow> scalar \<Rightarrow> scalar \<Rightarrow> py_error + nmat4" where
  "get_perspective_dyn fovy_deg aspect near_clip far_clip =
     (let y = tan (deg2rad fovy_deg / 2) in perspective_rows y aspect near_clip far_clip)"

text \<open>
  The fields \<open>near\<close> and \<open>far\<close> of a camera hold what the constructor was given. The flag
  \<open>python\<close> of the accessors below says that both are Python numbers, as the defaults
  are; \<open>W\<close> and \<open>H\<close> are Python integers.
\<close>

definition clip :: "bool \<Rightarrow> real \<Rightarrow> scalar" where
  "clip python x = (if python then Py x else Np x)"

definition fovx_np :: "OrbitCamera \<Rightarrow> npfloat" where
  "fovx_np self =
     np_mul (Fin 2)
       (np_arctan (np_div (Fin (tan (fovy self / 2) * real_of_int (W self)))
                          (Fin (real_of_int (H self)))))"

definition perspective_dyn :: "bool \<Rightarrow> OrbitCamera \<Rightarrow> py_error + nmat4" where
  "perspective_dyn python self =
     (let y = tan (fovy self / 2) in
      case py_div (real_of_int (W self)) (real_of_int (H self)) of
        Inl e \<Rightarrow> Inl e
      | Inr aspect \<Rightarrow>
          perspective_rows y aspect (clip python (near self)) (clip python (far self)))"

definition intrinsics_np :: "OrbitCamera \<Rightarrow> nvec4" where
  "intrinsics_np self =
     (let focal = np_div (Fin (real_of_int (H self))) (Fin (2 * tan (fovy self / 2)))
      in (focal, focal, Fin (real_of_int (W self div 2)), Fin (real_of_int (H self div 2))))"

definition mvp_dyn :: "bool \<Rightarrow> OrbitCamera \<Rightarrow> py_error + nmat4" where
  "mvp_dyn python self =
     (case perspective_dyn python self of
        Inl e \<Rightarrow> Inl e
      | Inr P \<Rightarrow>
          (case inv4 (pose self) of
             Inl e \<Rightarrow> Inl e
           | Inr V \<Rightarrow> Inr (matmul4_np P (lift_mat4 V))))"

definition scale_dyn :: "scalar \<Rightarrow> OrbitCamera \<Rightarrow> py_error + OrbitCamera" where
  "scale_dyn delta self =
     (case s_pow (Py (11 / 10)) (s_neg delta) of
        Inl e \<Rightarrow> Inl e
      | Inr k \<Rightarrow> Inr (self\<lparr>radius := radius self * k\<rparr>))"

text \<open>
  \<open>Rotation.from_matrix\<close> raises ValueError for a matrix that has a NaN or infinite entry
  or a determinant that is not positive, and returns the rotation of a rotation matrix. (A
  matrix with positive determinant that is not orthogonal is replaced by the nearest
  rotation, which is not represented: \<open>look_at\<close> returns a rotation matrix or NaN.)
\<close>

definition from_matrix_checked :: "nmat3 \<Rightarrow> py_error + mat3" where
  "from_matrix_checked M =
     (if finite_mat3 M \<and> 0 < det3 (value_mat3 M) then Inr (value_mat3 M)
      else Inl ValueError)"

definition from_angle_dyn ::
  "real \<Rightarrow> real \<Rightarrow> bool \<Rightarrow> OrbitCamera \<Rightarrow> py_error + OrbitCamera" where
  "from_angle_dyn elevation azimuth is_degree self =
     (let elevation = (if is_degree then deg2rad elevation else elevation);
          azimuth = (if is_degree then deg2rad azimuth else azimuth);
          x = radius self * cos elevation * sin azimuth;
          y = - radius self * sin elevation;
          z = radius self * cos elevation * cos azimuth;
          cam_pos = (x, y, z);
          rot_mat = look_at_np cam_pos zeros3 True
      in case from_matrix_checked rot_mat of
           Inl e \<Rightarrow> Inl e
         | Inr R \<Rightarrow> Inr (self\<lparr>rot := R\<rparr>))"

text \<open>
  The public operations as calls, the values they return, and the outcome of a call on a
  camera: the value, or the exception that the call raises. The camera is unused by the
  four module-level functions and by the constructor.
\<close>

datatype call =
    Call_look_at vec3 vec3 bool
  | Call_orbit_camera real real real bool "vec3 option" bool
  | Call_undo_orbit_camera mat4 bool
  | Call_get_perspective real real scalar scalar
  | Call_init int int real real real real
  | Call_fovx
  | Call_campos
  | Call_pose
  | Call_view
  | Call_perspective
  | Call_intrinsics
  | Call_mvp
  | Call_orbit real real
  | Call_scale scalar
  | Call_pan real real real
  | Call_from_angle real real bool

datatype result =
    Res_rotation nmat3
  | Res_matrix nmat4
  | Res_angles "npfloat \<times> npfloat \<times> npfloat"
  | Res_number npfloat
  | Res_vector nvec3
  | Res_intrinsics nvec4
  | Res_camera OrbitCamera

definition returning :: "('a \<Rightarrow> result) \<Rightarrow> py_error + 'a \<Rightarrow> py_error + result" where
  "returning wrap r = (case r of Inl e \<Rightarrow> Inl e | Inr x \<Rightarrow> Inr (wrap x))"

fun run :: "bool \<Rightarrow> OrbitCamera \<Rightarrow> call \<Rightarrow> py_error + result" where
  "run python self (Call_look_at c t opengl) = Inr (Res_rotation (look_at_np c t opengl))"
| "run python self (Call_orbit_camera e a r deg t opengl) =
     Inr (Res_matrix (orbit_camera_np e a r deg t opengl))"
| "run python self (Call_undo_orbit_camera T deg) = Inr (Res_angles (undo_orbit_camera_np T deg))"
| "run python self (Call_get_perspective f aspect n fa) =
     returning Res_matrix (get_perspective_dyn f aspect n fa)"
| "run python self (Call_init w h r f n fa) = Inr (Res_camera (init w h r f n fa))"
| "run python self Call_fovx = Inr (Res_number (fovx_np self))"
| "run python self Call_campos = Inr (Res_vector (lift3 (campos self)))"
| "run python self Call_pose = Inr (Res_matrix (lift_mat4 (pose self)))"
| "run python self Call_view = returning (\<lambda>V. Res_matrix (lift_mat4 V)) (view self)"
| "run python self Call_perspective = returning Res_matrix (perspective_dyn python self)"
| "run python self Call_intrinsics = Inr (Res_intrinsics (intrinsics_np self))"
| "run python self Call_mvp = returning Res_matrix (mvp_dyn python self)"
| "run python self (Call_orbit dx dy) = Inr (Res_camera (orbit dx dy self))"
| "run python self (Call_scale delta) = returning Res_camera (scale_dyn delta self)"
| "run python self (Call_pan dx dy dz) = Inr (Res_camera (pan dx dy dz self))"
| "run python self (Call_from_angle e a deg) = returning Res_camera (from_angle_dyn e a deg self)"

text \<open>
  The failures of the public operations: a Python division by zero in \<open>get_perspective\<close>,
  \<open>perspective\<close> and \<open>mvp\<close>, the overflow of the Python power in \<open>scale\<close>, and a degenerate
  matrix handed to scipy by \<open>from_angle\<close>.
\<close>

fun listed_failure :: "bool \<Rightarrow> OrbitCamera \<Rightarrow> call \<Rightarrow> py_error \<Rightarrow> bool" where
  "listed_failure python self (Call_get_perspective f aspect n fa) err \<longleftrightarrow>
     err = ZeroDivisionError \<and> is_py n \<and> is_py fa \<and> val fa = val n"
| "listed_failure python self Call_perspective err \<longleftrightarrow>
     err = ZeroDivisionError \<and> (H self = 0 \<or> (python \<and> far self = near self))"
| "listed_failure python self Call_mvp err \<longleftrightarrow>
     err = ZeroDivisionError \<and> (H self = 0 \<or> (python \<and> far self = near self))"
| "listed_failure python self (Call_scale delta) err \<longleftrightarrow>
     err = OverflowError \<and> is_py delta \<and> max_float < (11 / 10) powr (- val delta)"
| "listed_failure python self (Call_from_angle e a deg) err \<longleftrightarrow>
     err = ValueError \<and> (radius self = 0 \<or> cos (if deg then deg2rad e else e) = 0)"
| "listed_failure python self c err \<longleftrightarrow> False"

section \<open>Properties\<close>

subsection \<open>Slices of a pose matrix\<close>

lemma get_set_col3 [simp]: "get_col3 (set_col3 T v) = v"
  by (cases T rule: prod_cases4; cases v rule: prod_cases3) (auto split: prod.splits)

lemma get_block3_set_col3 [simp]: "get_block3 (set_col3 T v) = get_block3 T"
  by (cases T rule: prod_cases4; cases v rule: prod_cases3) (auto split: prod.splits)

lemma get_set_block3 [simp]: "get_block3 (set_block3 T R) = R"
  by (cases T rule: prod_cases4; cases R rule: prod_cases3) (auto split: prod.splits)

subsection \<open>Degrees and radians\<close>

lemma deg2rad_mono: "x < y \<Longrightarrow> deg2rad x < deg2rad y"
  by (simp add: deg2rad_def)

lemma deg2rad_values:
  "deg2rad 90 = pi / 2" "deg2rad (- 90) = - (pi / 2)"
  "deg2rad 180 = pi" "deg2rad (- 180) = - pi"
  by (simp_all add: deg2rad_def)

lemma rad_deg: "rad2deg (deg2rad x) = x"
  by (simp add: rad2deg_def deg2rad_def)

subsection \<open>The camera position on the sphere\<close>

lemma sphere_sq_alg:
  fixes r c s t d :: real
  shows "(r * c * s)\<^sup>2 + (r * t)\<^sup>2 + (r * c * d)\<^sup>2
         = r\<^sup>2 * (c\<^sup>2 * (s\<^sup>2 + d\<^sup>2) + t\<^sup>2)"
  by algebra

lemma sphere_sq:
  fixes r e a :: real
  shows "(r * cos e * sin a)\<^sup>2 + (r * sin e)\<^sup>2 + (r * cos e * cos a)\<^sup>2 = r\<^sup>2"
proof -
  have "(r * cos e * sin a)\<^sup>2 + (r * sin e)\<^sup>2 + (r * cos e * cos a)\<^sup>2
      = r\<^sup>2 * ((cos e)\<^sup>2 * ((sin a)\<^sup>2 + (cos a)\<^sup>2) + (sin e)\<^sup>2)"
    by (rule sphere_sq_alg)
  also have "\<dots> = r\<^sup>2"
    by simp
  finally show ?thesis .
qed

lemma norm3_sphere:
  "norm3 (r * cos e * sin a, - r * sin e, r * cos e * cos a) = \<bar>r\<bar>"
proof -
  have "dot3 (r * cos e * sin a, - r * sin e, r * cos e * cos a)
             (r * cos e * sin a, - r * sin e, r * cos e * cos a)
        = (r * cos e * sin a)\<^sup>2 + (r * sin e)\<^sup>2 + (r * cos e * cos a)\<^sup>2"
    by (simp add: power2_eq_square)
  then show ?thesis
    by (simp only: norm3_def sphere_sq real_sqrt_abs)
qed

subsection \<open>arctan2 inverts the polar parametrisation\<close>

lemma sin_sign:
  assumes "- pi < a" "a < pi"
  shows "0 < a \<Longrightarrow> 0 < sin a" and "a < 0 \<Longrightarrow> sin a < 0"
proof -
  show "0 < a \<Longrightarrow> 0 < sin a" using assms by (simp add: sin_gt_zero)
  show "a < 0 \<Longrightarrow> sin a < 0"
  proof -
    assume "a < 0"
    then have "0 < sin (- a)" using assms by (intro sin_gt_zero) auto
    then show ?thesis by simp
  qed
qed

lemma cos_sign:
  assumes "- pi < a" "a < pi"
  shows "0 < cos a \<longleftrightarrow> \<bar>a\<bar> < pi / 2" and "cos a < 0 \<longleftrightarrow> pi / 2 < \<bar>a\<bar>"
proof -
  have b: "0 \<le> \<bar>a\<bar>" "\<bar>a\<bar> \<le> pi" using assms by auto
  have h: "0 \<le> pi / 2" "pi / 2 \<le> pi" by auto
  have c: "cos \<bar>a\<bar> = cos a" by (rule cos_abs_real)
  show "0 < cos a \<longleftrightarrow> \<bar>a\<bar> < pi / 2"
    using cos_mono_less_eq [OF h b] c by simp
  show "cos a < 0 \<longleftrightarrow> pi / 2 < \<bar>a\<bar>"
    using cos_mono_less_eq [OF b h] c by simp
qed

lemma arctan2_polar:
  assumes k: "0 < k" and lo: "- pi < a" and hi: "a < pi"
  shows "arctan2 (k * sin a) (k * cos a) = a"
proof -
  have q: "k * sin a / (k * cos a) = tan a"
    using k by (simp add: tan_def)
  have unfold: "arctan2 (k * sin a) (k * cos a) =
     (if 0 < k * cos a then arctan (tan a)
      else if k * cos a < 0 \<and> 0 \<le> k * sin a then arctan (tan a) + pi
      else if k * cos a < 0 \<and> k * sin a < 0 then arctan (tan a) - pi
      else if 0 < k * sin a then pi / 2
      else if k * sin a < 0 then - (pi / 2)
      else 0)"
    by (simp only: arctan2_def q)
  consider (pos) "\<bar>a\<bar> < pi / 2" | (up) "pi / 2 < a" | (down) "a < - (pi / 2)"
    | (top) "a = pi / 2" | (bot) "a = - (pi / 2)"
    by linarith
  then show ?thesis
  proof cases
    case pos
    then have "0 < cos a" using cos_sign(1) [OF lo hi] by simp
    then have "0 < k * cos a" using k by simp
    moreover have "arctan (tan a) = a" using pos by (intro arctan_tan) auto
    ultimately show ?thesis by (simp add: unfold)
  next
    case up
    then have "cos a < 0" using cos_sign(2) [OF lo hi] by simp
    then have kx: "k * cos a < 0" using k by (simp add: mult_pos_neg)
    have "0 < sin a" using up sin_sign(1) [OF lo hi] pi_gt_zero by linarith
    then have ky: "0 \<le> k * sin a" using k by simp
    have "arctan (tan (a - pi)) = a - pi"
      using up hi by (intro arctan_tan) auto
    moreover have "tan (a - pi) = tan a"
      using tan_periodic_pi [of "a - pi"] by simp
    ultimately have "arctan (tan a) + pi = a" by simp
    then show ?thesis using kx ky by (simp add: unfold)
  next
    case down
    then have "cos a < 0" using cos_sign(2) [OF lo hi] by simp
    then have kx: "k * cos a < 0" using k by (simp add: mult_pos_neg)
    have "sin a < 0" using down sin_sign(2) [OF lo hi] pi_gt_zero by linarith
    then have ky: "k * sin a < 0" using k by (simp add: mult_pos_neg)
    have "arctan (tan (a + pi)) = a + pi"
      using down lo by (intro arctan_tan) auto
    then have "arctan (tan a) - pi = a" by simp
    then show ?thesis using kx ky by (simp add: unfold)
  next
    case top
    have "cos a = 0" "sin a = 1" unfolding top by simp_all
    then show ?thesis using k unfolding unfold by (simp add: top)
  next
    case bot
    have "cos a = 0" "sin a = - 1" unfolding bot by simp_all
    then show ?thesis using k unfolding unfold by (simp add: bot)
  qed
qed

subsection \<open>Round trip through the pose matrix\<close>

text \<open>
  Claim C1. For an elevation in (-90, 90) degrees, an azimuth in (-180, 180) degrees and a
  positive radius, with the target left at its default, \<open>undo_orbit_camera\<close> applied to the
  pose built by \<open>orbit_camera\<close> gives back the elevation, the azimuth and the radius. In
  exact arithmetic the three values are recovered exactly, under either convention of
  \<open>look_at\<close>.
\<close>

theorem orbit_roundtrip:
  assumes "- 90 < e" "e < 90" "- 180 < a" "a < 180" "0 < r"
  shows "undo_orbit_camera (orbit_camera e a r True None opengl) True = (e, a, r)"
proof -
  let ?e = "deg2rad e" and ?a = "deg2rad a"
  have e: "- (pi / 2) < ?e" "?e < pi / 2"
    using deg2rad_mono [OF assms(1)] deg2rad_mono [OF assms(2)]
    by (simp_all add: deg2rad_values)
  have a: "- pi < ?a" "?a < pi"
    using deg2rad_mono [OF assms(3)] deg2rad_mono [OF assms(4)]
    by (simp_all add: deg2rad_values)
  have ce: "0 < cos ?e" using e by (rule cos_gt_zero_pi)
  have col: "get_col3 (orbit_camera e a r True None opengl)
      = (r * cos ?e * sin ?a, - r * sin ?e, r * cos ?e * cos ?a)"
    by (simp add: orbit_camera_def Let_def zeros3_def eye4_def)
  have n: "norm3 (r * cos ?e * sin ?a, - r * sin ?e, r * cos ?e * cos ?a) = r"
    using norm3_sphere [of r ?e ?a] assms(5) by simp
  have el: "arcsin (- (- r * sin ?e) / r) = ?e"
    using assms(5) e by (simp add: arcsin_sin)
  have az: "arctan2 (r * cos ?e * sin ?a) (r * cos ?e * cos ?a) = ?a"
    using arctan2_polar [of "r * cos ?e" ?a] assms(5) ce a by simp
  show ?thesis
    unfolding undo_orbit_camera_def col Let_def
    by (simp only: n el az fst_conv snd_conv rad_deg if_True)
qed

theorem orbit_roundtrip_witness:
  "- 90 < (30::real) \<and> (30::real) < 90 \<and> - 180 < (45::real) \<and> (45::real) < 180 \<and> 0 < (2::real)
   \<and> undo_orbit_camera (orbit_camera 30 45 2 True None True) True = (30, 45, 2)"
  using orbit_roundtrip [of 30 45 2 True] by simp

subsection \<open>Zoom\<close>



subsection \<open>Frame conditions of the mutators\<close>

text \<open>
  Claim C10. Each mutator changes one field only: \<open>orbit\<close> and \<open>from_angle\<close> change \<open>rot\<close>,
  \<open>scale\<close> changes \<open>radius\<close>, \<open>pan\<close> changes \<open>center\<close>. The state after the call is the state
  before it with that one field replaced, so \<open>W\<close>, \<open>H\<close>, \<open>fovy\<close>, \<open>near\<close>, \<open>far\<close> and \<open>up\<close> are
  never modified, and \<open>from_angle\<close> leaves \<open>center\<close> and \<open>radius\<close> as they were.
\<close>

theorem mutators_frame:
  "orbit dx dy s = s\<lparr>rot := rot (orbit dx dy s)\<rparr>
   \<and> from_angle e a deg s = s\<lparr>rot := rot (from_angle e a deg s)\<rparr>
   \<and> scale delta s = s\<lparr>radius := radius (scale delta s)\<rparr>
   \<and> pan px py pz s = s\<lparr>center := center (pan px py pz s)\<rparr>
   \<and> center (from_angle e a deg s) = center s
   \<and> radius (from_angle e a deg s) = radius s
   \<and> same_construction_fields s (orbit dx dy s)
   \<and> same_construction_fields s (from_angle e a deg s)
   \<and> same_construction_fields s (scale delta s)
   \<and> same_construction_fields s (pan px py pz s)"
  by (simp add: orbit_def from_angle_def scale_def pan_def Let_def same_construction_fields_def)

theorem mutators_frame_witness:
  "center (from_angle 30 45 True (init 800 600 2 60 0.01 100)) = (0, 0, 0)
   \<and> radius (from_angle 30 45 True (init 800 600 2 60 0.01 100)) = 2
   \<and> W (orbit 10 20 (init 800 600 2 60 0.01 100)) = 800
   \<and> up (pan 1 2 3 (init 800 600 2 60 0.01 100)) = (0, 1, 0)"
  using mutators_frame [of 10 20 "init 800 600 2 60 0.01 100" 30 45 True 0 1 2 3]
  by (simp add: init_def same_construction_fields_def)

subsection \<open>The perspective matrix\<close>

lemma tan_half_fov_pos:
  assumes "0 < f" "f < 180"
  shows "0 < tan (deg2rad f / 2)"
proof -
  have "0 < deg2rad f / 2" using assms(1) by (simp add: deg2rad_def)
  moreover have "deg2rad f / 2 < pi / 2"
    using deg2rad_mono [OF assms(2)] by (simp add: deg2rad_values)
  ultimately show ?thesis by (rule tan_gt_zero)
qed

text \<open>
  Claim C6. For a vertical field of view strictly between 0 and 180 degrees, a positive
  aspect ratio and clip planes with \<open>0 < near < far\<close>, \<open>get_perspective\<close> returns the matrix
  with \<open>1 / (y * aspect)\<close> at [0,0], \<open>- 1 / y\<close> at [1,1], \<open>- (far + near) / (far - near)\<close> at
  [2,2], \<open>- (2 * far * near) / (far - near)\<close> at [2,3], \<open>- 1\<close> at [3,2] and zero elsewhere,
  where \<open>y\<close> is the tangent of half the field of view in radians; \<open>y\<close> is positive, so none
  of the quotients is degenerate.
\<close>

theorem get_perspective_entries:
  assumes "0 < f" "f < 180" "0 < aspect" "0 < n" "n < fa"
  shows "0 < tan (deg2rad f / 2) \<and>
    get_perspective f aspect n fa =
     Inr ((1 / (tan (deg2rad f / 2) * aspect), 0, 0, 0),
          (0, - 1 / tan (deg2rad f / 2), 0, 0),
          (0, 0, - (fa + n) / (fa - n), - (2 * fa * n) / (fa - n)),
          (0, 0, - 1, 0))"
  using assms tan_half_fov_pos [of f]
  by (simp add: get_perspective_def perspective_matrix_def py_div_def Let_def)

theorem get_perspective_entries_witness:
  "get_perspective 90 1 1 3 = Inr ((1, 0, 0, 0), (0, - 1, 0, 0), (0, 0, - 2, - 3), (0, 0, - 1, 0))"
proof -
  have "deg2rad 90 / 2 = pi / 4" by (simp add: deg2rad_def)
  then have t: "tan (deg2rad 90 / 2) = 1" by (simp only: tan_45)
  show ?thesis
    using get_perspective_entries [of 90 1 1 3] by (simp add: t)
qed

subsection \<open>Intrinsics\<close>

text \<open>
  Claim C7 gives the principal point as \<open>W / 2\<close> with floor division and \<open>H / 2\<close>. The code
  takes the floor of both: for the odd height 3 the fourth entry is 1, not 3 / 2.
\<close>

theorem intrinsics_odd_height:
  "\<not> (let s = init 4 3 2 60 0.01 100;
           f = real_of_int (H s) / (2 * tan (fovy s / 2))
       in intrinsics s = (f, f, real_of_int (W s div 2), real_of_int (H s) / 2))"
  by (simp add: intrinsics_def init_def Let_def)

text \<open>
  Claim C7, amended. For a positive integer viewport and \<open>fovy\<close> in \<open>(0, pi)\<close>, the accessor
  returns \<open>(f, f, cx, cy)\<close> with \<open>f = H / (2 * tan (fovy / 2))\<close> for both axes,
  \<open>cx = floor (W / 2)\<close> and \<open>cy = floor (H / 2)\<close>, both by integer floor division; the
  tangent is positive, so \<open>f\<close> is a proper quotient.
\<close>

theorem intrinsics_floor:
  assumes "0 < W s" "0 < H s" "0 < fovy s" "fovy s < pi"
  shows "intrinsics s =
      (real_of_int (H s) / (2 * tan (fovy s / 2)),
       real_of_int (H s) / (2 * tan (fovy s / 2)),
       of_int \<lfloor>real_of_int (W s) / 2\<rfloor>,
       of_int \<lfloor>real_of_int (H s) / 2\<rfloor>)
     \<and> 0 < tan (fovy s / 2)"
proof -
  have "0 < tan (fovy s / 2)" using assms(3,4) by (intro tan_gt_zero) auto
  moreover have "\<lfloor>real_of_int (W s) / 2\<rfloor> = W s div 2" "\<lfloor>real_of_int (H s) / 2\<rfloor> = H s div 2"
    by (simp_all add: floor_divide_of_int_eq [where ?'a = real, symmetric])
  ultimately show ?thesis by (simp add: intrinsics_def Let_def)
qed

theorem intrinsics_floor_witness:
  "intrinsics (init 5 3 2 90 0.01 100) = (3 / 2, 3 / 2, 2, 1)"
proof -
  let ?s = "init 5 3 2 90 0.01 100"
  have "deg2rad 90 / 2 = pi / 4" by (simp add: deg2rad_def)
  then have t: "tan (deg2rad 90 / 2) = 1" by (simp only: tan_45)
  have "0 < W ?s" "0 < H ?s" "0 < fovy ?s" "fovy ?s < pi"
    by (simp_all add: init_def deg2rad_def)
  from intrinsics_floor [OF this] show ?thesis
    by (simp add: init_def t)
qed

subsection \<open>Where the camera sits\<close>

text \<open>
  Claim C2 places the camera at distance \<open>radius\<close> from \<open>center\<close>, as the comments on the
  two fields say (\<open>camera distance from center\<close>, \<open>look at this point\<close>). The \<open>pose\<close>
  property subtracts \<open>center\<close> from the translation column. After \<open>pan(2000, 0, 0)\<close> on a
  fresh camera the centre is \<open>(1, 0, 0)\<close>, the radius is 2, the camera is at \<open>(-1, 0, 2)\<close>,
  and its distance from the centre is the square root of 8.
\<close>

theorem pose_distance_from_center:
  "let s = pan 2000 0 0 (init 800 600 2 60 0.01 100) in
     center s = (1, 0, 0) \<and> radius s = 2 \<and> campos s = (- 1, 0, 2)
     \<and> norm3 (sub3 (campos s) (center s)) = sqrt 8
     \<and> norm3 (sub3 (campos s) (center s)) \<noteq> radius s"
proof -
  have "sqrt 8 \<noteq> 2"
  proof
    assume "sqrt 8 = 2"
    then have "(sqrt 8)\<^sup>2 = 2\<^sup>2" by simp
    then show False by simp
  qed
  then show ?thesis
    by (simp add: Let_def campos_def pose_def sub_col3_def eye4_def pan_def init_def
        from_matrix_def as_matrix_def eye3_def norm3_def)
qed

text \<open>
  What the code does instead: when the third column of the rotation has unit length, the
  camera is at distance \<open>radius\<close> from the point \<open>- center\<close>.
\<close>

lemma pose_distance_from_negated_center:
  assumes "norm3 (col3_2 (rot s)) = 1"
  shows "norm3 (add3 (campos s) (center s)) = \<bar>radius s\<bar>"
proof -
  obtain r11 r12 r13 r21 r22 r23 r31 r32 r33 where
    R: "rot s = ((r11, r12, r13), (r21, r22, r23), (r31, r32, r33))"
    by (metis prod_cases3)
  obtain c1 c2 c3 where C: "center s = (c1, c2, c3)" by (metis prod_cases3)
  have u: "r13 * r13 + r23 * r23 + r33 * r33 = 1"
    using assms by (simp add: R norm3_def)
  have "add3 (campos s) (center s) = (radius s * r13, radius s * r23, radius s * r33)"
    by (simp add: campos_def pose_def sub_col3_def eye4_def as_matrix_def R C Let_def)
  moreover have "(radius s * r13) * (radius s * r13) + (radius s * r23) * (radius s * r23)
      + (radius s * r33) * (radius s * r33) = (radius s)\<^sup>2 * (r13 * r13 + r23 * r23 + r33 * r33)"
    by algebra
  ultimately show ?thesis by (simp add: norm3_def u)
qed

subsection \<open>The rotation block of orbit\_camera\<close>

lemma norm3_unit_iff: "norm3 v = 1 \<longleftrightarrow> dot3 v v = 1"
  by (simp add: norm3_def)

lemma safe_normalize_sphere:
  assumes "0 < r"
  shows "safe_normalize (r * cos e * sin a, - r * sin e, r * cos e * cos a)
         = (cos e * sin a, - sin e, cos e * cos a)"
proof -
  have "norm3 (r * cos e * sin a, - (r * sin e), r * cos e * cos a) = r"
    using norm3_sphere [of r e a] assms by simp
  then show ?thesis using assms by (simp add: safe_normalize_def)
qed

lemma norm3_right:
  fixes e a :: real
  assumes "0 < cos e"
  shows "norm3 (cos e * cos a, 0, - (cos e * sin a)) = cos e"
proof -
  have "dot3 (cos e * cos a, 0, - (cos e * sin a)) (cos e * cos a, 0, - (cos e * sin a))
        = (cos e)\<^sup>2"
    unfolding dot3.simps using sin_cos_squared_add [of a] by algebra
  then have "norm3 (cos e * cos a, 0, - (cos e * sin a)) = \<bar>cos e\<bar>"
    by (simp only: norm3_def real_sqrt_abs)
  then show ?thesis using assms by simp
qed

lemma norm3_up:
  fixes e a :: real
  shows "norm3 (sin e * sin a, cos e, sin e * cos a) = 1"
proof -
  have "dot3 (sin e * sin a, cos e, sin e * cos a) (sin e * sin a, cos e, sin e * cos a)
        = 1"
    unfolding dot3.simps using sin_cos_squared_add [of a] sin_cos_squared_add [of e] by algebra
  then show ?thesis by (simp only: norm3_def real_sqrt_one)
qed

lemma look_at_sphere:
  assumes r: "0 < r" and ce: "0 < cos e"
  shows "look_at (r * cos e * sin a, - r * sin e, r * cos e * cos a) zeros3 True
       = ((cos a, sin e * sin a, cos e * sin a),
          (0, cos e, - sin e),
          (- sin a, sin e * cos a, cos e * cos a))"
proof -
  let ?f = "(cos e * sin a, - sin e, cos e * cos a)"
  have f: "safe_normalize (sub3 (r * cos e * sin a, - r * sin e, r * cos e * cos a) zeros3) = ?f"
    using safe_normalize_sphere [OF r, of e a] by (simp add: zeros3_def)
  have c1: "cross (0, 1, 0) ?f = (cos e * cos a, 0, - (cos e * sin a))"
    by simp
  have rt: "safe_normalize (cos e * cos a, 0, - (cos e * sin a)) = (cos a, 0, - sin a)"
    using ce by (simp add: safe_normalize_def norm3_right)
  have c2: "cross ?f (cos a, 0, - sin a) = (sin e * sin a, cos e, sin e * cos a)"
  proof -
    have "cos e * cos a * cos a - cos e * sin a * (- sin a) = cos e"
      using sin_cos_squared_add [of a] by algebra
    then show ?thesis by (simp only: cross.simps) simp
  qed
  have u: "safe_normalize (sin e * sin a, cos e, sin e * cos a) = (sin e * sin a, cos e, sin e * cos a)"
    by (simp add: safe_normalize_def norm3_up)
  show ?thesis
    unfolding look_at_def Let_def
    by (simp only: f c1 rt c2 u stack_axis1.simps simp_thms if_False if_True)
qed

lemma sphere_rotation:
  fixes e a :: real
  shows "proper_rotation ((cos a, sin e * sin a, cos e * sin a),
          (0, cos e, - sin e),
          (- sin a, sin e * cos a, cos e * cos a))"
proof -
  have E: "(sin e)\<^sup>2 + (cos e)\<^sup>2 = 1" and A: "(sin a)\<^sup>2 + (cos a)\<^sup>2 = 1" by simp_all
  have 1: "cos a * cos a + sin a * sin a = 1" using A by algebra
  have 2: "sin e * sin a * (sin e * sin a) + cos e * cos e + sin e * cos a * (sin e * cos a) = 1"
    using A E by algebra
  have 3: "cos e * sin a * (cos e * sin a) + sin e * sin e + cos e * cos a * (cos e * cos a) = 1"
    using A E by algebra
  have 4: "cos a * (sin e * sin a) + - sin a * (sin e * cos a) = 0" by algebra
  have 5: "cos a * (cos e * sin a) + - sin a * (cos e * cos a) = 0" by algebra
  have 6: "sin e * sin a * (cos e * sin a) + cos e * - sin e + sin e * cos a * (cos e * cos a) = 0"
    using A by algebra
  have 7: "cos a * (cos e * (cos e * cos a) - - sin e * (sin e * cos a))
      - sin e * sin a * (0 * (cos e * cos a) - - sin e * - sin a)
      + cos e * sin a * (0 * (sin e * cos a) - cos e * - sin a) = 1"
    using A E by algebra
  show ?thesis
    unfolding proper_rotation_def orthonormal_columns_def norm3_unit_iff
    using 1 2 3 4 5 6 7 by simp
qed

text \<open>
  Claim C3. For an elevation in (-89, 89) degrees, an azimuth in (-179, 179) degrees and a
  positive radius, the upper-left 3x3 block of \<open>orbit_camera\<close> (OpenGL convention, default
  target) has unit-length, mutually orthogonal columns and determinant 1.
\<close>

theorem orbit_camera_rotation:
  assumes "- 89 < e" "e < 89" "- 179 < a" "a < 179" "0 < r"
  shows "orthonormal_columns (get_block3 (orbit_camera e a r True None True))
       \<and> det3 (get_block3 (orbit_camera e a r True None True)) = 1"
proof -
  let ?e = "deg2rad e" and ?a = "deg2rad a"
  have "deg2rad (- 90) < ?e" "?e < deg2rad 90"
    using assms(1,2) by (auto intro: deg2rad_mono)
  then have ce: "0 < cos ?e"
    by (intro cos_gt_zero_pi) (simp_all add: deg2rad_values)
  have "get_block3 (orbit_camera e a r True None True)
      = look_at (r * cos ?e * sin ?a, - r * sin ?e, r * cos ?e * cos ?a) zeros3 True"
    by (simp add: orbit_camera_def Let_def zeros3_def)
  then show ?thesis
    using look_at_sphere [OF assms(5) ce, of ?a] sphere_rotation [of ?a ?e]
    by (simp add: proper_rotation_def)
qed

theorem orbit_camera_rotation_witness:
  "- 89 < (0::real) \<and> (0::real) < 89 \<and> - 179 < (0::real) \<and> (0::real) < 179 \<and> 0 < (1::real)
   \<and> orthonormal_columns (get_block3 (orbit_camera 0 0 1 True None True))
   \<and> det3 (get_block3 (orbit_camera 0 0 1 True None True)) = 1"
  using orbit_camera_rotation [of 0 0 1] by simp

subsection \<open>The inverse of the pose\<close>

lemma mat4_cases:
  obtains a11 a12 a13 a14 a21 a22 a23 a24 a31 a32 a33 a34 a41 a42 a43 a44 :: real
  where "M = ((a11, a12, a13, a14), (a21, a22, a23, a24), (a31, a32, a33, a34), (a41, a42, a43, a44))"
  by (metis prod_cases4)

lemma mat3_cases:
  obtains a11 a12 a13 a21 a22 a23 a31 a32 a33 :: real
  where "M = ((a11, a12, a13), (a21, a22, a23), (a31, a32, a33))"
  by (metis prod_cases3)

lemma adjugate_right: "matmul4 M (adjugate4 M) = scale_mat4 (det4 M) eye4"
proof (cases M rule: mat4_cases)
  case 1
  show ?thesis
    unfolding 1 adjugate4_def cofactor4_def eye4_def
    by (simp add: Let_def cofactor4_def algebra_simps)
qed

lemma adjugate_left: "matmul4 (adjugate4 M) M = scale_mat4 (det4 M) eye4"
proof (cases M rule: mat4_cases)
  case 1
  show ?thesis
    unfolding 1 adjugate4_def cofactor4_def eye4_def
    by (simp add: Let_def cofactor4_def algebra_simps)
qed

lemma matmul4_assoc: "matmul4 (matmul4 A B) C = matmul4 A (matmul4 B C)"
proof (cases A rule: mat4_cases)
  case A: 1
  show ?thesis
  proof (cases B rule: mat4_cases)
    case B: 1
    show ?thesis
    proof (cases C rule: mat4_cases)
      case C: 1
      show ?thesis unfolding A B C by (simp add: algebra_simps)
    qed
  qed
qed

lemma matmul4_eye_left [simp]: "matmul4 eye4 M = M"
  by (cases M rule: mat4_cases) (simp add: eye4_def)

lemma matmul4_eye_right [simp]: "matmul4 M eye4 = M"
  by (cases M rule: mat4_cases) (simp add: eye4_def)

lemma matmul4_scale_right: "matmul4 A (scale_mat4 k B) = scale_mat4 k (matmul4 A B)"
proof (cases A rule: mat4_cases)
  case A: 1
  show ?thesis
  proof (cases B rule: mat4_cases)
    case B: 1
    show ?thesis unfolding A B by (simp add: algebra_simps)
  qed
qed

lemma matmul4_scale_left: "matmul4 (scale_mat4 k A) B = scale_mat4 k (matmul4 A B)"
proof (cases A rule: mat4_cases)
  case A: 1
  show ?thesis
  proof (cases B rule: mat4_cases)
    case B: 1
    show ?thesis unfolding A B by (simp add: algebra_simps)
  qed
qed

lemma scale_mat4_scale: "scale_mat4 a (scale_mat4 b M) = scale_mat4 (a * b) M"
  by (cases M rule: mat4_cases) simp

lemma scale_mat4_one [simp]: "scale_mat4 1 M = M"
  by (cases M rule: mat4_cases) simp

lemma inv4_inverse:
  assumes "det4 M \<noteq> 0"
  shows "\<exists>V. inv4 M = Inr V \<and> matmul4 M V = eye4 \<and> matmul4 V M = eye4"
proof -
  let ?V = "scale_mat4 (1 / det4 M) (adjugate4 M)"
  have "inv4 M = Inr ?V" using assms by (simp add: inv4_def Let_def)
  moreover have "matmul4 M ?V = eye4"
    using assms by (simp add: matmul4_scale_right adjugate_right scale_mat4_scale)
  moreover have "matmul4 ?V M = eye4"
    using assms by (simp add: matmul4_scale_left adjugate_left scale_mat4_scale)
  ultimately show ?thesis by blast
qed

lemma inverse_unique:
  assumes "matmul4 V M = eye4" "matmul4 M B = eye4"
  shows "B = V"
proof -
  have "B = matmul4 (matmul4 V M) B" by (simp add: assms(1))
  also have "\<dots> = matmul4 V (matmul4 M B)" by (rule matmul4_assoc)
  also have "\<dots> = V" by (simp add: assms(2))
  finally show ?thesis .
qed

lemma pose_rows:
  assumes R: "rot s = ((a11, a12, a13), (a21, a22, a23), (a31, a32, a33))"
    and C: "center s = (c1, c2, c3)"
  shows "pose s = ((a11, a12, a13, a13 * radius s - c1),
                   (a21, a22, a23, a23 * radius s - c2),
                   (a31, a32, a33, a33 * radius s - c3),
                   (0, 0, 0, 1))"
  by (simp add: pose_def sub_col3_def eye4_def as_matrix_def R C Let_def)

lemma det4_affine:
  "det4 ((a11, a12, a13, t1), (a21, a22, a23, t2), (a31, a32, a33, t3), (0, 0, 0, 1))
   = det3 ((a11, a12, a13), (a21, a22, a23), (a31, a32, a33))"
  by (simp add: cofactor4_def Let_def)

lemma det4_pose: "det4 (pose s) = det3 (rot s)"
proof (cases "rot s" rule: mat3_cases)
  case R: 1
  obtain c1 c2 c3 where C: "center s = (c1, c2, c3)" by (metis prod_cases3)
  show ?thesis
    unfolding pose_rows [OF R C] det4_affine R ..
qed

text \<open>
  Claim C4. For a camera whose \<open>rot\<close> is a proper rotation, as it is in every state reached
  from the constructor, the pose matrix is invertible: \<open>view\<close> raises no LinAlgError, the
  matrix it returns is a two-sided inverse of \<open>pose\<close>, so that \<open>pose @ view\<close> is the
  identity, and it is the only matrix with that property.
\<close>

theorem view_inverts_pose:
  assumes "proper_rotation (rot s)"
  shows "\<exists>V. view s = Inr V
           \<and> matmul4 (pose s) V = eye4 \<and> matmul4 V (pose s) = eye4
           \<and> (\<forall>B. matmul4 (pose s) B = eye4 \<longrightarrow> B = V)"
proof -
  have "det4 (pose s) \<noteq> 0"
    using assms by (simp add: det4_pose proper_rotation_def)
  then obtain V where V: "inv4 (pose s) = Inr V" "matmul4 (pose s) V = eye4"
      "matmul4 V (pose s) = eye4"
    using inv4_inverse by blast
  have "\<forall>B. matmul4 (pose s) B = eye4 \<longrightarrow> B = V"
    using inverse_unique [OF V(3)] by blast
  with V show ?thesis unfolding view_def by blast
qed

lemma proper_rotation_eye3: "proper_rotation eye3"
  by (simp add: proper_rotation_def orthonormal_columns_def eye3_def norm3_def)

theorem view_inverts_pose_witness:
  "proper_rotation (rot (init 800 600 2 60 0.01 100))
   \<and> view (init 800 600 2 60 0.01 100)
       = Inr ((1, 0, 0, 0), (0, 1, 0, 0), (0, 0, 1, - 2), (0, 0, 0, 1))"
proof -
  let ?s = "init 800 600 2 60 0.01 100"
  let ?V = "((1, 0, 0, 0), (0, 1, 0, 0), (0, 0, 1, - 2), (0, 0, 0, 1)) :: mat4"
  have r: "proper_rotation (rot ?s)"
    by (simp add: init_def from_matrix_def proper_rotation_eye3)
  have p: "pose ?s = ((1, 0, 0, 0), (0, 1, 0, 0), (0, 0, 1, 2), (0, 0, 0, 1))"
    by (simp add: pose_def init_def from_matrix_def as_matrix_def eye3_def eye4_def
        sub_col3_def Let_def)
  have m: "matmul4 (pose ?s) ?V = eye4"
    unfolding p by (simp add: eye4_def)
  obtain V where V: "view ?s = Inr V" "\<forall>B. matmul4 (pose ?s) B = eye4 \<longrightarrow> B = V"
    using view_inverts_pose [OF r] by blast
  from V(2) m have "?V = V" by blast
  with V(1) r show ?thesis by simp
qed

subsection \<open>Orbiting\<close>

lemma matmul3_assoc: "matmul3 (matmul3 A B) C = matmul3 A (matmul3 B C)"
proof (cases A rule: mat3_cases)
  case A: 1
  show ?thesis
  proof (cases B rule: mat3_cases)
    case B: 1
    show ?thesis
    proof (cases C rule: mat3_cases)
      case C: 1
      show ?thesis unfolding A B C by (simp add: algebra_simps)
    qed
  qed
qed

lemma norm3_scale3: "norm3 (scale3 k v) = \<bar>k\<bar> * norm3 v"
proof (cases v rule: prod_cases3)
  case (fields x y z)
  have "k * x * (k * x) + k * y * (k * y) + k * z * (k * z) = k\<^sup>2 * (x * x + y * y + z * z)"
    by algebra
  then show ?thesis
    by (simp add: fields norm3_def real_sqrt_mult)
qed

lemma skew_scale3: "skew (scale3 k v) = scale_mat3 k (skew v)"
  by (cases v rule: prod_cases3) simp

lemma matmul3_scale: "matmul3 (scale_mat3 k A) (scale_mat3 k B) = scale_mat3 (k * k) (matmul3 A B)"
proof (cases A rule: mat3_cases)
  case A: 1
  show ?thesis
  proof (cases B rule: mat3_cases)
    case B: 1
    show ?thesis unfolding A B by (simp add: algebra_simps)
  qed
qed

lemma scale_mat3_scale: "scale_mat3 a (scale_mat3 b M) = scale_mat3 (a * b) M"
  by (cases M rule: mat3_cases) (simp add: mult.assoc)

lemma scale_mat3_zero: "add_mat3 eye3 (add_mat3 (scale_mat3 0 A) (scale_mat3 0 B)) = eye3"
  by (cases A rule: mat3_cases; cases B rule: mat3_cases) (simp add: eye3_def)

lemma from_rotvec_axis_angle:
  assumes "norm3 u = 1"
  shows "from_rotvec (scale3 t u) = rotation_about u t"
proof (cases "t = 0")
  case True
  then have "norm3 (scale3 t u) = 0" by (simp add: norm3_scale3)
  then show ?thesis
    using True by (simp add: from_rotvec_def rotation_about_def scale_mat3_zero)
next
  case False
  have n: "norm3 (scale3 t u) = \<bar>t\<bar>" using assms by (simp add: norm3_scale3)
  have s: "sin \<bar>t\<bar> / \<bar>t\<bar> * t = sin t"
    using False by (cases "0 \<le> t") (simp_all add: abs_if)
  have c: "(1 - cos \<bar>t\<bar>) / \<bar>t\<bar>\<^sup>2 * (t * t) = 1 - cos t"
    using False by (simp add: power2_eq_square)
  have "from_rotvec (scale3 t u) =
      add_mat3 eye3
        (add_mat3 (scale_mat3 (sin \<bar>t\<bar> / \<bar>t\<bar>) (skew (scale3 t u)))
           (scale_mat3 ((1 - cos \<bar>t\<bar>) / \<bar>t\<bar>\<^sup>2)
              (matmul3 (skew (scale3 t u)) (skew (scale3 t u)))))"
    using False by (simp add: from_rotvec_def n Let_def)
  also have "\<dots> = rotation_about u t"
    by (simp only: skew_scale3 matmul3_scale scale_mat3_scale s c rotation_about_def)
  finally show ?thesis .
qed

text \<open>
  Claim C5. For a camera whose \<open>up\<close> vector and whose first rotation column have unit
  length, as they have in every state reached from the constructor, \<open>orbit dx dy\<close> sets the
  rotation to the rotation about \<open>up\<close> by the angle of \<open>- 0.05 * dx\<close> degrees, composed with
  the rotation about \<open>side\<close> by the angle of \<open>- 0.05 * dy\<close> degrees, composed with the old
  rotation, in that order of left multiplication, where \<open>side\<close> is the first column of the
  old rotation matrix. Two states that agree on \<open>rot\<close> and \<open>up\<close> get the same new
  rotation: no other field enters the update.
\<close>

theorem orbit_composition:
  assumes "norm3 (up s) = 1" and "norm3 (col3_0 (rot s)) = 1"
  shows "rot (orbit dx dy s) =
           matmul3 (rotation_about (up s) (deg2rad (- 0.05 * dx)))
             (matmul3 (rotation_about (col3_0 (rot s)) (deg2rad (- 0.05 * dy))) (rot s))
       \<and> (\<forall>s'. rot s' = rot s \<and> up s' = up s \<longrightarrow> rot (orbit dx dy s') = rot (orbit dx dy s))"
  using assms
  by (simp add: orbit_def Let_def as_matrix_def from_rotvec_axis_angle matmul3_assoc)

lemma rotation_about_y:
  "rotation_about (0, 1, 0) t = ((cos t, 0, sin t), (0, 1, 0), (- sin t, 0, cos t))"
  by (simp add: rotation_about_def eye3_def)

lemma rotation_about_x:
  "rotation_about (1, 0, 0) t = ((1, 0, 0), (0, cos t, - sin t), (0, sin t, cos t))"
  by (simp add: rotation_about_def eye3_def)

lemma rotation_about_fixes_axis:
  "matvec3 (rotation_about u t) u = u"
  by (cases u rule: prod_cases3) (simp add: rotation_about_def eye3_def algebra_simps)

theorem orbit_composition_witness:
  "norm3 (up (init 800 600 2 60 0.01 100)) = 1
   \<and> norm3 (col3_0 (rot (init 800 600 2 60 0.01 100))) = 1
   \<and> rot (orbit 1800 0 (init 800 600 2 60 0.01 100)) = ((0, 0, - 1), (0, 1, 0), (1, 0, 0))"
proof -
  let ?s = "init 800 600 2 60 0.01 100"
  have u: "up ?s = (0, 1, 0)" and r: "rot ?s = eye3"
    by (simp_all add: init_def from_matrix_def)
  have h: "norm3 (up ?s) = 1" "norm3 (col3_0 (rot ?s)) = 1"
    unfolding u r by (simp_all add: norm3_def eye3_def)
  have a: "deg2rad (- 0.05 * 1800) = - (pi / 2)" "deg2rad (- 0.05 * 0) = 0"
    by (simp_all add: deg2rad_def)
  have "rot (orbit 1800 0 ?s) =
      matmul3 (rotation_about (0, 1, 0) (- (pi / 2)))
        (matmul3 (rotation_about (col3_0 eye3) 0) eye3)"
    using orbit_composition [OF h, of 1800 0] unfolding u r a by simp
  then show ?thesis
    using h by (simp add: rotation_about_y rotation_about_def eye3_def)
qed

subsection \<open>Products of rotations and the axis-angle rotation\<close>

lemma orthonormal_columns_dot:
  "orthonormal_columns M \<longleftrightarrow>
     dot3 (col3_0 M) (col3_0 M) = 1 \<and> dot3 (col3_1 M) (col3_1 M) = 1
     \<and> dot3 (col3_2 M) (col3_2 M) = 1
     \<and> dot3 (col3_0 M) (col3_1 M) = 0 \<and> dot3 (col3_0 M) (col3_2 M) = 0
     \<and> dot3 (col3_1 M) (col3_2 M) = 0"
  by (simp add: orthonormal_columns_def norm3_def)

lemma dot3_matvec3_expand:
  "dot3 (matvec3 ((a11, a12, a13), (a21, a22, a23), (a31, a32, a33)) (v1, v2, v3))
        (matvec3 ((a11, a12, a13), (a21, a22, a23), (a31, a32, a33)) (w1, w2, w3))
   = v1 * w1 * (a11 * a11 + a21 * a21 + a31 * a31)
   + v2 * w2 * (a12 * a12 + a22 * a22 + a32 * a32)
   + v3 * w3 * (a13 * a13 + a23 * a23 + a33 * a33)
   + (v1 * w2 + v2 * w1) * (a11 * a12 + a21 * a22 + a31 * a32)
   + (v1 * w3 + v3 * w1) * (a11 * a13 + a21 * a23 + a31 * a33)
   + (v2 * w3 + v3 * w2) * (a12 * a13 + a22 * a23 + a32 * a33)"
  by (simp add: algebra_simps)

lemma orthonormal_preserves_dot:
  assumes "orthonormal_columns A"
  shows "dot3 (matvec3 A v) (matvec3 A w) = dot3 v w"
proof -
  obtain a11 a12 a13 a21 a22 a23 a31 a32 a33 where
    A: "A = ((a11, a12, a13), (a21, a22, a23), (a31, a32, a33))"
    by (metis prod_cases3)
  obtain v1 v2 v3 where v: "v = (v1, v2, v3)" by (metis prod_cases3)
  obtain w1 w2 w3 where w: "w = (w1, w2, w3)" by (metis prod_cases3)
  from assms have h: "a11 * a11 + a21 * a21 + a31 * a31 = 1"
    "a12 * a12 + a22 * a22 + a32 * a32 = 1" "a13 * a13 + a23 * a23 + a33 * a33 = 1"
    "a11 * a12 + a21 * a22 + a31 * a32 = 0" "a11 * a13 + a21 * a23 + a31 * a33 = 0"
    "a12 * a13 + a22 * a23 + a32 * a33 = 0"
    by (simp_all add: orthonormal_columns_dot A)
  show ?thesis
    unfolding A v w dot3_matvec3_expand h by simp
qed

lemma col3_matmul3:
  "col3_0 (matmul3 A B) = matvec3 A (col3_0 B)"
  "col3_1 (matmul3 A B) = matvec3 A (col3_1 B)"
  "col3_2 (matmul3 A B) = matvec3 A (col3_2 B)"
  by (cases A rule: mat3_cases; cases B rule: mat3_cases; simp)+

lemma det3_matmul3: "det3 (matmul3 A B) = det3 A * det3 B"
  by (cases A rule: mat3_cases; cases B rule: mat3_cases) (simp add: algebra_simps)

lemma proper_rotation_matmul3:
  assumes "proper_rotation A" "proper_rotation B"
  shows "proper_rotation (matmul3 A B)"
  using assms
  by (simp add: proper_rotation_def orthonormal_columns_dot [of "matmul3 A B"] col3_matmul3
      orthonormal_preserves_dot det3_matmul3)
    (simp add: orthonormal_columns_dot)

lemma rotation_about_entries:
  "rotation_about (x, y, z) t =
     ((1 + (1 - cos t) * (- (z * z) - y * y), sin t * - z + (1 - cos t) * (y * x),
         sin t * y + (1 - cos t) * (z * x)),
      (sin t * z + (1 - cos t) * (x * y), 1 + (1 - cos t) * (- (z * z) - x * x),
         sin t * - x + (1 - cos t) * (z * y)),
      (sin t * - y + (1 - cos t) * (x * z), sin t * x + (1 - cos t) * (y * z),
         1 + (1 - cos t) * (- (y * y) - x * x)))"
  by (simp add: rotation_about_def eye3_def algebra_simps)

lemma rotation_about_proper:
  assumes "norm3 u = 1"
  shows "proper_rotation (rotation_about u t)"
proof -
  obtain x y z where u: "u = (x, y, z)" by (metis prod_cases3)
  define s c where "s = sin t" and "c = cos t"
  have U: "x * x + y * y + z * z = 1" using assms by (simp add: u norm3_def)
  have T: "s * s + c * c = 1" using sin_cos_squared_add [of t] by (simp add: s_def c_def power2_eq_square)
  have R: "rotation_about u t =
     ((1 + (1 - c) * (- (z * z) - y * y), s * - z + (1 - c) * (y * x), s * y + (1 - c) * (z * x)),
      (s * z + (1 - c) * (x * y), 1 + (1 - c) * (- (z * z) - x * x), s * - x + (1 - c) * (z * y)),
      (s * - y + (1 - c) * (x * z), s * x + (1 - c) * (y * z), 1 + (1 - c) * (- (y * y) - x * x)))"
    unfolding u rotation_about_entries s_def c_def ..
  have 1: "dot3 (col3_0 (rotation_about u t)) (col3_0 (rotation_about u t)) = 1"
    unfolding R col3_0.simps dot3.simps using U T by algebra
  have 2: "dot3 (col3_1 (rotation_about u t)) (col3_1 (rotation_about u t)) = 1"
    unfolding R col3_1.simps dot3.simps using U T by algebra
  have 3: "dot3 (col3_2 (rotation_about u t)) (col3_2 (rotation_about u t)) = 1"
    unfolding R col3_2.simps dot3.simps using U T by algebra
  have 4: "dot3 (col3_0 (rotation_about u t)) (col3_1 (rotation_about u t)) = 0"
    unfolding R col3_0.simps col3_1.simps dot3.simps using U T by algebra
  have 5: "dot3 (col3_0 (rotation_about u t)) (col3_2 (rotation_about u t)) = 0"
    unfolding R col3_0.simps col3_2.simps dot3.simps using U T by algebra
  have 6: "dot3 (col3_1 (rotation_about u t)) (col3_2 (rotation_about u t)) = 0"
    unfolding R col3_1.simps col3_2.simps dot3.simps using U T by algebra
  have 7: "det3 (rotation_about u t) = 1"
    unfolding R det3.simps using U T by algebra
  show ?thesis
    unfolding proper_rotation_def orthonormal_columns_dot using 1 2 3 4 5 6 7 by blast
qed

subsection \<open>Invariant of the reachable states\<close>

text \<open>
  Every reachable state has the world up vector \<open>(0, 1, 0)\<close>, a proper rotation in \<open>rot\<close>
  and a positive radius: the conditions under which the statements on \<open>view\<close> and on
  \<open>orbit\<close> above are proved.
\<close>

lemma from_angle_rot:
  assumes "- 90 < e" "e < 90" "0 < radius s"
  shows "rot (from_angle e a True s) =
      ((cos (deg2rad a), sin (deg2rad e) * sin (deg2rad a), cos (deg2rad e) * sin (deg2rad a)),
       (0, cos (deg2rad e), - sin (deg2rad e)),
       (- sin (deg2rad a), sin (deg2rad e) * cos (deg2rad a), cos (deg2rad e) * cos (deg2rad a)))"
proof -
  have "deg2rad (- 90) < deg2rad e" "deg2rad e < deg2rad 90"
    using assms(1,2) by (auto intro: deg2rad_mono)
  then have ce: "0 < cos (deg2rad e)"
    by (intro cos_gt_zero_pi) (simp_all add: deg2rad_values)
  show ?thesis
    using look_at_sphere [OF assms(3) ce, of "deg2rad a"]
    by (simp add: from_angle_def from_matrix_def Let_def)
qed

lemma reachable_invariant:
  assumes "reachable s"
  shows "up s = (0, 1, 0) \<and> proper_rotation (rot s) \<and> 0 < radius s"
  using assms
proof (induction rule: reachable.induct)
  case (constructed r w h fovy_deg near_clip far_clip)
  then show ?case
    by (simp add: init_def from_matrix_def proper_rotation_eye3)
next
  case (orbited s dx dy)
  then have u: "norm3 (up s) = 1" by (simp add: norm3_def)
  from orbited have c: "norm3 (col3_0 (rot s)) = 1"
    by (simp add: proper_rotation_def orthonormal_columns_def)
  have "rot (orbit dx dy s) =
      matmul3 (matmul3 (rotation_about (up s) (deg2rad (- 0.05 * dx)))
                 (rotation_about (col3_0 (rot s)) (deg2rad (- 0.05 * dy)))) (rot s)"
    by (simp add: orbit_def Let_def as_matrix_def from_rotvec_axis_angle [OF u]
        from_rotvec_axis_angle [OF c])
  moreover have "up (orbit dx dy s) = up s" "radius (orbit dx dy s) = radius s"
    by (simp_all add: orbit_def Let_def)
  ultimately show ?case
    using orbited.IH rotation_about_proper [OF u] rotation_about_proper [OF c]
    by (simp add: proper_rotation_matmul3)
next
  case (scaled s delta)
  then show ?case by (simp add: scale_def)
next
  case (panned s dx dy dz)
  then show ?case by (simp add: pan_def)
next
  case (snapped s e a)
  have "up (from_angle e a True s) = up s" "radius (from_angle e a True s) = radius s"
    by (simp_all add: from_angle_def Let_def)
  then show ?case
    using snapped from_angle_rot [of e s a] sphere_rotation [of "deg2rad a" "deg2rad e"]
    by simp
qed

lemma reachable_unit_axes:
  assumes "reachable s"
  shows "norm3 (up s) = 1" and "norm3 (col3_0 (rot s)) = 1"
  using reachable_invariant [OF assms]
  by (simp_all add: norm3_def proper_rotation_def orthonormal_columns_def)

subsection \<open>The exception-level model agrees with the real-number model\<close>

text \<open>
  Where no divisor vanishes, the operations on numpy values return the values of the
  real-number embedding.
\<close>

lemma np_sub_Fin [simp]: "np_sub (Fin a) (Fin b) = Fin (a - b)"
  by (simp add: np_sub_def)

lemma cross_np_lift: "cross_np (lift3 a) (lift3 b) = lift3 (cross a b)"
  by (cases a rule: prod_cases3; cases b rule: prod_cases3) simp

lemma dot3_np_lift: "dot3_np (lift3 a) (lift3 b) = Fin (dot3 a b)"
  by (cases a rule: prod_cases3; cases b rule: prod_cases3) simp

lemma dot3_self_nonneg: "0 \<le> dot3 v v"
  by (cases v rule: prod_cases3) simp

lemma norm3_np_lift: "norm3_np (lift3 v) = Fin (norm3 v)"
  using dot3_self_nonneg [of v]
  by (simp add: norm3_np_def norm3_def dot3_np_lift not_less [symmetric])

lemma safe_normalize_np_lift:
  assumes "norm3 v \<noteq> 0"
  shows "safe_normalize_np (lift3 v) = lift3 (safe_normalize v)"
  using assms
  by (cases v rule: prod_cases3)
    (simp add: safe_normalize_np_def safe_normalize_def norm3_np_lift [of "(a, b, c)" for a b c, simplified])

lemma safe_normalize_np_zero:
  "safe_normalize_np (lift3 (0, 0, 0)) = (NaN, NaN, NaN)"
  by (simp add: safe_normalize_np_def norm3_np_def)

lemma stack_axis1_np_lift:
  "stack_axis1_np (lift3 a) (lift3 b) (lift3 c) = lift_mat3 (stack_axis1 a b c)"
  by (cases a rule: prod_cases3; cases b rule: prod_cases3; cases c rule: prod_cases3) simp

lemma value_lift_mat3 [simp]: "value_mat3 (lift_mat3 M) = M"
  by (cases M rule: mat3_cases) simp

lemma finite_lift_mat3 [simp]: "finite_mat3 (lift_mat3 M)"
  by (cases M rule: mat3_cases) simp

lemma look_at_np_sphere:
  assumes r: "0 < r" and ce: "0 < cos e"
  shows "look_at_np (r * cos e * sin a, - r * sin e, r * cos e * cos a) zeros3 True
       = lift_mat3 (look_at (r * cos e * sin a, - r * sin e, r * cos e * cos a) zeros3 True)"
proof -
  let ?c = "(r * cos e * sin a, - r * sin e, r * cos e * cos a)"
  let ?f = "(cos e * sin a, - sin e, cos e * cos a)"
  let ?x = "(cos e * cos a, 0, - (cos e * sin a))"
  let ?r = "(cos a, 0, - sin a)"
  let ?u = "(sin e * sin a, cos e, sin e * cos a)"
  have s: "sub3 ?c zeros3 = ?c" by (simp add: zeros3_def)
  have n1: "norm3 ?c \<noteq> 0" using norm3_sphere [of r e a] r by simp
  have f: "safe_normalize ?c = ?f" using safe_normalize_sphere [OF r, of e a] by simp
  have c1: "cross (0, 1, 0) ?f = ?x" by simp
  have n2: "norm3 ?x \<noteq> 0" using norm3_right [OF ce, of a] ce by simp
  have rt: "safe_normalize ?x = ?r"
    using ce by (simp add: safe_normalize_def norm3_right)
  have c2: "cross ?f ?r = ?u"
  proof -
    have "cos e * cos a * cos a - cos e * sin a * (- sin a) = cos e"
      using sin_cos_squared_add [of a] by algebra
    then show ?thesis by (simp only: cross.simps) simp
  qed
  have n3: "norm3 ?u \<noteq> 0" by (simp add: norm3_up)
  have u: "safe_normalize ?u = ?u" by (simp add: safe_normalize_def norm3_up)
  have up: "lift3 (0, 1, 0) = (Fin 0, Fin 1, Fin 0)" by simp
  have L: "look_at ?c zeros3 True = stack_axis1 ?r ?u ?f"
    unfolding look_at_def Let_def
    by (simp only: s f c1 rt c2 u simp_thms if_False if_True)
  have "look_at_np ?c zeros3 True = stack_axis1_np (lift3 ?r) (lift3 ?u) (lift3 ?f)"
    unfolding look_at_np_def Let_def
    by (simp only: s safe_normalize_np_lift [OF n1] f cross_np_lift c1
        safe_normalize_np_lift [OF n2] rt c2 safe_normalize_np_lift [OF n3] u
        simp_thms if_False if_True)
  then show ?thesis by (simp only: L stack_axis1_np_lift)
qed

lemma sphere_reparam:
  fixes r e a :: real
  assumes "r \<noteq> 0" "cos e \<noteq> 0"
  shows "\<exists>r' e' a'. 0 < r' \<and> 0 < cos e' \<and>
           (r * cos e * sin a, - r * sin e, r * cos e * cos a)
         = (r' * cos e' * sin a', - r' * sin e', r' * cos e' * cos a')"
proof -
  consider (pp) "0 < r" "0 < cos e" | (pn) "0 < r" "cos e < 0"
    | (nn) "r < 0" "cos e < 0" | (np) "r < 0" "0 < cos e"
    using assms by (metis linorder_neqE_linordered_idom)
  then show ?thesis
  proof cases
    case pp
    then show ?thesis by blast
  next
    case pn
    have "0 < cos (pi - e)" using pn by simp
    moreover have "(r * cos e * sin a, - r * sin e, r * cos e * cos a)
        = (r * cos (pi - e) * sin (a + pi), - r * sin (pi - e), r * cos (pi - e) * cos (a + pi))"
      by simp
    ultimately show ?thesis using pn(1) by blast
  next
    case nn
    have "0 < - r" "0 < cos (e + pi)" using nn by simp_all
    moreover have "(r * cos e * sin a, - r * sin e, r * cos e * cos a)
        = (- r * cos (e + pi) * sin a, - (- r) * sin (e + pi), - r * cos (e + pi) * cos a)"
      by simp
    ultimately show ?thesis by blast
  next
    case np
    have "0 < - r" "0 < cos (- e)" using np by simp_all
    moreover have "(r * cos e * sin a, - r * sin e, r * cos e * cos a)
        = (- r * cos (- e) * sin (a + pi), - (- r) * sin (- e), - r * cos (- e) * cos (a + pi))"
      by simp
    ultimately show ?thesis by blast
  qed
qed

lemma look_at_np_nondegenerate:
  assumes "r \<noteq> 0" "cos e \<noteq> 0"
  shows "look_at_np (r * cos e * sin a, - r * sin e, r * cos e * cos a) zeros3 True
       = lift_mat3 (look_at (r * cos e * sin a, - r * sin e, r * cos e * cos a) zeros3 True)
     \<and> proper_rotation (look_at (r * cos e * sin a, - r * sin e, r * cos e * cos a) zeros3 True)"
proof -
  obtain r' e' a' where p: "0 < r'" "0 < cos e'"
    and eq: "(r * cos e * sin a, - r * sin e, r * cos e * cos a)
         = (r' * cos e' * sin a', - r' * sin e', r' * cos e' * cos a')"
    using sphere_reparam [OF assms] by blast
  show ?thesis
    unfolding eq
    using look_at_np_sphere [OF p, of a'] look_at_sphere [OF p, of a'] sphere_rotation [of a' e']
    by simp
qed

lemma from_angle_dyn_returns:
  assumes "radius s \<noteq> 0" "cos (if deg then deg2rad e else e) \<noteq> 0"
  shows "from_angle_dyn e a deg s = Inr (from_angle e a deg s)"
proof -
  let ?e = "if deg then deg2rad e else e" and ?a = "if deg then deg2rad a else a"
  have n: "look_at_np (radius s * cos ?e * sin ?a, - radius s * sin ?e, radius s * cos ?e * cos ?a)
             zeros3 True
       = lift_mat3 (look_at (radius s * cos ?e * sin ?a, - radius s * sin ?e,
                             radius s * cos ?e * cos ?a) zeros3 True)"
    and p: "proper_rotation (look_at (radius s * cos ?e * sin ?a, - radius s * sin ?e,
                             radius s * cos ?e * cos ?a) zeros3 True)"
    using look_at_np_nondegenerate [OF assms, of ?a] by simp_all
  have d: "0 < det3 (look_at (radius s * cos ?e * sin ?a, - radius s * sin ?e,
                             radius s * cos ?e * cos ?a) zeros3 True)"
    using p by (simp add: proper_rotation_def)
  show ?thesis
    unfolding from_angle_dyn_def from_angle_def Let_def n from_matrix_checked_def from_matrix_def
    using d by simp
qed

lemma from_angle_dyn_zero_radius:
  assumes "radius s = 0"
  shows "from_angle_dyn e a deg s = Inl ValueError"
  using assms
  by (simp add: from_angle_dyn_def Let_def look_at_np_def zeros3_def safe_normalize_np_def
      norm3_np_def from_matrix_checked_def)

lemma get_perspective_dyn_python:
  assumes "tan (deg2rad f / 2) * aspect \<noteq> 0"
  shows "get_perspective_dyn f aspect (Py n) (Py fa) =
      (case get_perspective f aspect n fa of Inl e \<Rightarrow> Inl e | Inr M \<Rightarrow> Inr (lift_mat4 M))"
  using assms
  by (simp add: get_perspective_dyn_def get_perspective_def perspective_rows_def
      perspective_matrix_def py_div_def Let_def)

lemma intrinsics_np_finite:
  assumes "tan (fovy s / 2) \<noteq> 0"
  shows "intrinsics_np s = lift4 (intrinsics s)"
  using assms by (simp add: intrinsics_np_def intrinsics_def Let_def)

lemma fovx_np_finite:
  assumes "H s \<noteq> 0"
  shows "fovx_np s = Fin (fovx s)"
  using assms by (simp add: fovx_np_def fovx_def)

lemma abs_component_le_norm3: "\<bar>y\<bar> \<le> norm3 (x, y, z)"
proof -
  have "y\<^sup>2 \<le> x * x + y * y + z * z"
    by (simp add: power2_eq_square)
  then have "sqrt (y\<^sup>2) \<le> sqrt (x * x + y * y + z * z)"
    by (rule real_sqrt_le_mono)
  then show ?thesis by (simp add: norm3_def)
qed

lemma undo_orbit_camera_np_finite:
  assumes "norm3 (get_col3 T) \<noteq> 0"
  shows "undo_orbit_camera_np T deg =
      (case undo_orbit_camera T deg of (el, az, r) \<Rightarrow> (Fin el, Fin az, Fin r))"
proof -
  obtain x y z where c: "get_col3 T = (x, y, z)" by (metis prod_cases3)
  have "0 \<le> norm3 (x, y, z)"
    using dot3_self_nonneg [of "(x, y, z)"] by (simp only: norm3_def real_sqrt_ge_0_iff)
  with assms have n: "0 < norm3 (x, y, z)"
    by (simp add: c less_le)
  have "\<bar>- y / norm3 (x, y, z)\<bar> \<le> 1"
    using abs_component_le_norm3 [of y x z] n by (simp add: field_simps)
  then show ?thesis
    using n
    by (simp add: undo_orbit_camera_np_def undo_orbit_camera_def c Let_def rad2deg_np_def
        rad2deg_def)
qed

lemma undo_orbit_camera_np_zero:
  assumes "get_col3 T = (0, 0, 0)"
  shows "undo_orbit_camera_np T deg = (NaN, Fin 0, Fin 0)"
  using assms
  by (simp add: undo_orbit_camera_np_def Let_def norm3_def rad2deg_np_def arctan2_def)

lemma look_at_np_same_point:
  "look_at_np p p opengl = ((NaN, NaN, NaN), (NaN, NaN, NaN), (NaN, NaN, NaN))"
  by (cases p rule: prod_cases3)
    (simp add: look_at_np_def safe_normalize_np_def norm3_np_def np_sub_def Let_def)

lemma perspective_rows_numpy_equal:
  assumes "0 < b" "y * aspect \<noteq> 0"
  shows "perspective_rows y aspect (Np b) (Np b) =
      Inr ((Fin (1 / (y * aspect)), Fin 0, Fin 0, Fin 0),
           (Fin 0, Fin (- 1 / y), Fin 0, Fin 0),
           (Fin 0, Fin 0, NInf, NInf),
           (Fin 0, Fin 0, Fin (- 1), Fin 0))"
  using assms by (simp add: perspective_rows_def not_less)

lemma perspective_dyn_python:
  assumes "tan (fovy s / 2) * (real_of_int (W s) / real_of_int (H s)) \<noteq> 0"
  shows "perspective_dyn True s =
      (case perspective s of Inl e \<Rightarrow> Inl e | Inr M \<Rightarrow> Inr (lift_mat4 M))"
  using assms
  by (simp add: perspective_dyn_def perspective_def perspective_rows_def
      perspective_matrix_def py_div_def clip_def Let_def)

lemma power_overflow: "max_float < (11 / 10) powr 10000"
proof -
  have "max_float < (2::real) ^ 1024"
    by (simp add: max_float_def)
  also have "(2::real) ^ 1024 \<le> 2 ^ 1250"
    by (rule power_increasing) simp_all
  also have "(2::real) ^ 1250 \<le> ((11 / 10) ^ 8) ^ 1250"
    by (rule power_mono) (simp_all add: power_divide)
  also have "((11 / 10 :: real) ^ 8) ^ 1250 = (11 / 10) ^ (8 * 1250)"
    by (rule power_mult [symmetric])
  also have "\<dots> = (11 / 10) powr real (8 * 1250)"
    by (rule powr_realpow [symmetric]) simp
  also have "real (8 * 1250) = 10000"
    by simp
  finally show ?thesis .
qed

lemma set_slices_lift:
  "set_col3_np (set_block3_np (lift_mat4 T) (lift_mat3 R)) (lift3 v)
   = lift_mat4 (set_col3 (set_block3 T R) v)"
  by (cases T rule: mat4_cases; cases R rule: mat3_cases; cases v rule: prod_cases3) simp

lemma orbit_camera_np_finite:
  assumes "r \<noteq> 0" "cos (if deg then deg2rad e else e) \<noteq> 0"
  shows "orbit_camera_np e a r deg None True = lift_mat4 (orbit_camera e a r deg None True)"
proof -
  let ?e = "if deg then deg2rad e else e" and ?a = "if deg then deg2rad a else a"
  have n: "look_at_np (r * cos ?e * sin ?a, - r * sin ?e, r * cos ?e * cos ?a) zeros3 True
       = lift_mat3 (look_at (r * cos ?e * sin ?a, - r * sin ?e, r * cos ?e * cos ?a) zeros3 True)"
    using look_at_np_nondegenerate [OF assms, of ?a] by simp
  have z: "add3 (r * cos ?e * sin ?a, - r * sin ?e, r * cos ?e * cos ?a) zeros3
       = (r * cos ?e * sin ?a, - r * sin ?e, r * cos ?e * cos ?a)"
    by (simp add: zeros3_def)
  show ?thesis
    unfolding orbit_camera_np_def orbit_camera_def Let_def option.case z n set_slices_lift ..
qed


subsection \<open>Which operations raise\<close>

lemma view_returns:
  assumes "proper_rotation (rot s)"
  shows "\<exists>V. view s = Inr V"
proof -
  have "det4 (pose s) \<noteq> 0"
    using assms by (simp add: det4_pose proper_rotation_def)
  then show ?thesis
    using inv4_inverse unfolding view_def by blast
qed

lemma perspective_rows_raises:
  "perspective_rows y aspect n fa = Inl err \<longleftrightarrow>
     err = ZeroDivisionError \<and> is_py n \<and> is_py fa \<and> val fa = val n"
  by (cases n; cases fa) (auto simp: perspective_rows_def)

lemma perspective_dyn_raises:
  "perspective_dyn python s = Inl err \<longleftrightarrow>
     err = ZeroDivisionError \<and> (H s = 0 \<or> (python \<and> far s = near s))"
  by (auto simp: perspective_dyn_def py_div_def perspective_rows_raises clip_def Let_def)

lemma mvp_dyn_raises:
  assumes "proper_rotation (rot s)"
  shows "mvp_dyn python s = Inl err \<longleftrightarrow>
     err = ZeroDivisionError \<and> (H s = 0 \<or> (python \<and> far s = near s))"
proof -
  obtain V where V: "inv4 (pose s) = Inr V"
    using view_returns [OF assms] unfolding view_def by blast
  show ?thesis
    using perspective_dyn_raises [of python s err]
    by (cases "perspective_dyn python s") (simp_all add: mvp_dyn_def V)
qed

lemma scale_dyn_raises:
  "scale_dyn delta s = Inl err \<longleftrightarrow>
     err = OverflowError \<and> is_py delta \<and> max_float < (11 / 10) powr (- val delta)"
  by (cases delta) (auto simp: scale_dyn_def)

lemma scale_dyn_returns:
  "scale_dyn delta s = Inr s' \<Longrightarrow> s' = scale (val delta) s"
  by (cases delta) (auto simp: scale_dyn_def scale_def split: if_splits)

lemma from_angle_dyn_raises:
  assumes "from_angle_dyn e a deg s = Inl err"
  shows "err = ValueError \<and> (radius s = 0 \<or> cos (if deg then deg2rad e else e) = 0)"
proof -
  have "radius s = 0 \<or> cos (if deg then deg2rad e else e) = 0"
  proof (rule ccontr)
    assume "\<not> ?thesis"
    then have "from_angle_dyn e a deg s = Inr (from_angle e a deg s)"
      by (intro from_angle_dyn_returns) simp_all
    with assms show False by simp
  qed
  moreover have "err = ValueError"
    using assms
    by (simp add: from_angle_dyn_def from_matrix_checked_def Let_def split: if_splits)
  ultimately show ?thesis by simp
qed

lemma returning_Inl [simp]: "returning wrap r = Inl err \<longleftrightarrow> r = Inl err"
  by (cases r) (simp_all add: returning_def)

lemma no_other_failure:
  assumes "proper_rotation (rot s)" and "run python s c = Inl err"
  shows "listed_failure python s c err"
proof (cases c)
  case (Call_get_perspective f aspect n fa)
  then show ?thesis
    using assms(2) by (simp add: get_perspective_dyn_def perspective_rows_raises Let_def)
next
  case Call_view
  then show ?thesis
    using assms(2) view_returns [OF assms(1)] by auto
next
  case Call_perspective
  then show ?thesis
    using assms(2) by (simp add: perspective_dyn_raises)
next
  case Call_mvp
  then show ?thesis
    using assms(2) by (simp add: mvp_dyn_raises [OF assms(1)])
next
  case (Call_scale delta)
  then show ?thesis
    using assms(2) by (simp add: scale_dyn_raises)
next
  case (Call_from_angle e a deg)
  then show ?thesis
    using assms(2) from_angle_dyn_raises [of e a deg s err] by simp
qed (use assms(2) in simp_all)

text \<open>
  Claim C9 says that no public operation ever raises and that \<open>far = near\<close> propagates as
  an infinity. With \<open>near\<close> and \<open>far\<close> given as Python numbers, as the defaults of
  \<open>get_perspective\<close> are, the quotient by \<open>far - near\<close> is a Python division by zero:
  \<open>get_perspective(60, 1, 0.5, 0.5)\<close> raises ZeroDivisionError.
\<close>

theorem get_perspective_python_raises:
  "run True (init 800 600 2 60 (1 / 100) 100)
     (Call_get_perspective 60 1 (Py (1 / 2)) (Py (1 / 2))) = Inl ZeroDivisionError"
  by (simp add: get_perspective_dyn_def perspective_rows_def returning_def Let_def)

text \<open>
  Claim C9, amended. For finite inputs and a camera whose \<open>rot\<close> is a rotation, a public
  operation raises only in the listed cases, and in every other case returns a value.
  \<^item> \<open>get_perspective\<close> raises ZeroDivisionError when \<open>near\<close> and \<open>far\<close> are both Python numbers
    and \<open>far = near\<close>.
  \<^item> \<open>perspective\<close> and \<open>mvp\<close> raise ZeroDivisionError when \<open>H = 0\<close>, or when \<open>near\<close> and \<open>far\<close>
    are Python numbers and \<open>far = near\<close>.
  \<^item> \<open>scale\<close> raises OverflowError when \<open>delta\<close> is a Python number and \<open>1.1 ** (-delta)\<close>
    exceeds the largest float.
  \<^item> \<open>from_angle\<close> raises ValueError when \<open>radius = 0\<close>, and can raise only there or at the
    singularity of \<open>look_at\<close>, where the cosine of the elevation vanishes.
  \<^item> \<open>look_at\<close>, \<open>orbit_camera\<close>, \<open>undo_orbit_camera\<close>, the constructor, \<open>fovx\<close>, \<open>campos\<close>,
    \<open>pose\<close>, \<open>view\<close>, \<open>intrinsics\<close>, \<open>orbit\<close> and \<open>pan\<close> never raise.
  Out-of-domain inputs that reach numpy arithmetic propagate as special values:
  \<open>far = near\<close> given as positive numpy scalars gives \<open>-inf\<close> at [2,2] and [2,3],
  \<open>campos = target\<close> gives a rotation block of NaN, and a pose with zero translation gives
  the elevation NaN in \<open>undo_orbit_camera\<close>.
\<close>

theorem public_operations_failures:
  assumes "proper_rotation (rot s)"
  shows "(\<forall>err. run python s c = Inl err \<longrightarrow> listed_failure python s c err)
    \<and> (is_py n \<and> is_py fa \<and> val fa = val n \<longrightarrow>
         run python s (Call_get_perspective f aspect n fa) = Inl ZeroDivisionError)
    \<and> (H s = 0 \<or> (python \<and> far s = near s) \<longrightarrow>
         run python s Call_perspective = Inl ZeroDivisionError
         \<and> run python s Call_mvp = Inl ZeroDivisionError)
    \<and> (is_py delta \<and> max_float < (11 / 10) powr (- val delta) \<longrightarrow>
         run python s (Call_scale delta) = Inl OverflowError)
    \<and> (radius s = 0 \<longrightarrow> run python s (Call_from_angle e a deg) = Inl ValueError)
    \<and> (0 < b \<and> tan (deg2rad f / 2) * aspect \<noteq> 0 \<longrightarrow>
         run python s (Call_get_perspective f aspect (Np b) (Np b)) =
           Inr (Res_matrix
             ((Fin (1 / (tan (deg2rad f / 2) * aspect)), Fin 0, Fin 0, Fin 0),
              (Fin 0, Fin (- 1 / tan (deg2rad f / 2)), Fin 0, Fin 0),
              (Fin 0, Fin 0, NInf, NInf),
              (Fin 0, Fin 0, Fin (- 1), Fin 0))))
    \<and> run python s (Call_look_at p p opengl) =
          Inr (Res_rotation ((NaN, NaN, NaN), (NaN, NaN, NaN), (NaN, NaN, NaN)))
    \<and> (get_col3 T = (0, 0, 0) \<longrightarrow>
         run python s (Call_undo_orbit_camera T deg) = Inr (Res_angles (NaN, Fin 0, Fin 0)))"
proof -
  have 1: "\<forall>err. run python s c = Inl err \<longrightarrow> listed_failure python s c err"
    using no_other_failure [OF assms] by blast
  have 2: "is_py n \<and> is_py fa \<and> val fa = val n \<longrightarrow>
         run python s (Call_get_perspective f aspect n fa) = Inl ZeroDivisionError"
    by (simp add: get_perspective_dyn_def perspective_rows_raises Let_def)
  have 3: "H s = 0 \<or> (python \<and> far s = near s) \<longrightarrow>
         run python s Call_perspective = Inl ZeroDivisionError
         \<and> run python s Call_mvp = Inl ZeroDivisionError"
    by (simp add: perspective_dyn_raises mvp_dyn_raises [OF assms])
  have 4: "is_py delta \<and> max_float < (11 / 10) powr (- val delta) \<longrightarrow>
         run python s (Call_scale delta) = Inl OverflowError"
    by (simp add: scale_dyn_raises)
  have 5: "radius s = 0 \<longrightarrow> run python s (Call_from_angle e a deg) = Inl ValueError"
    by (simp add: from_angle_dyn_zero_radius)
  have 6: "0 < b \<and> tan (deg2rad f / 2) * aspect \<noteq> 0 \<longrightarrow>
         run python s (Call_get_perspective f aspect (Np b) (Np b)) =
           Inr (Res_matrix
             ((Fin (1 / (tan (deg2rad f / 2) * aspect)), Fin 0, Fin 0, Fin 0),
              (Fin 0, Fin (- 1 / tan (deg2rad f / 2)), Fin 0, Fin 0),
              (Fin 0, Fin 0, NInf, NInf),
              (Fin 0, Fin 0, Fin (- 1), Fin 0)))"
    by (simp add: get_perspective_dyn_def perspective_rows_numpy_equal returning_def Let_def)
  have 7: "run python s (Call_look_at p p opengl) =
          Inr (Res_rotation ((NaN, NaN, NaN), (NaN, NaN, NaN), (NaN, NaN, NaN)))"
    by (simp add: look_at_np_same_point)
  have 8: "get_col3 T = (0, 0, 0) \<longrightarrow>
         run python s (Call_undo_orbit_camera T deg) = Inr (Res_angles (NaN, Fin 0, Fin 0))"
    by (simp add: undo_orbit_camera_np_zero)
  from 1 2 3 4 5 6 7 8 show ?thesis by blast
qed

theorem public_operations_failures_witness:
  "proper_rotation (rot (init 800 600 2 60 (1 / 100) 100))
   \<and> run True (init 800 600 2 60 (1 / 100) 100)
         (Call_get_perspective 60 1 (Py (1 / 2)) (Py (1 / 2))) = Inl ZeroDivisionError
   \<and> run True (init 800 600 2 60 (1 / 100) 100) (Call_scale (Py (- 10000))) = Inl OverflowError
   \<and> (\<forall>err. run True (init 800 600 2 60 (1 / 100) 100) Call_view \<noteq> Inl err)
   \<and> (\<forall>err. run True (init 800 600 2 60 (1 / 100) 100) Call_mvp \<noteq> Inl err)"
proof -
  let ?s = "init 800 600 2 60 (1 / 100) 100"
  have r: "proper_rotation (rot ?s)"
    by (simp add: init_def from_matrix_def proper_rotation_eye3)
  have o: "max_float < (11 / 10) powr (- val (Py (- 10000)))"
    using power_overflow by simp
  have i: "is_py (Py (- 10000))" by simp
  have g: "is_py (Py (1 / 2)) \<and> is_py (Py (1 / 2)) \<and> val (Py (1 / 2)) = val (Py (1 / 2))"
    by simp
  have h: "H ?s \<noteq> 0" "far ?s \<noteq> near ?s"
    by (simp_all add: init_def)
  note t = public_operations_failures [OF r, where python = True]
  have a: "run True ?s (Call_get_perspective 60 1 (Py (1 / 2)) (Py (1 / 2))) = Inl ZeroDivisionError"
    by (rule mp [OF t [THEN conjunct2, THEN conjunct1] g])
  have b: "run True ?s (Call_scale (Py (- 10000))) = Inl OverflowError"
    by (rule mp [OF t [THEN conjunct2, THEN conjunct2, THEN conjunct2, THEN conjunct1]
          conjI [OF i o]])
  have c: "\<forall>err. run True ?s Call_view \<noteq> Inl err"
  proof (intro allI notI)
    fix err assume "run True ?s Call_view = Inl err"
    with t [where c = Call_view, THEN conjunct1]
    have "listed_failure True ?s Call_view err" by blast
    then show False by simp
  qed
  have d: "\<forall>err. run True ?s Call_mvp \<noteq> Inl err"
  proof (intro allI notI)
    fix err assume "run True ?s Call_mvp = Inl err"
    with t [where c = Call_mvp, THEN conjunct1]
    have "listed_failure True ?s Call_mvp err" by blast
    then show False using h by simp
  qed
  from r a b c d show ?thesis by blast
qed

end
